theory Spec2Isabelle
  imports Complex_Main
begin

section \<open>JavaScript values\<close>

text \<open>
  A JavaScript number is \<open>NaN\<close>, one of the two infinities, or a finite value.  Finite
  values are taken as reals: every quantity of the program (milliseconds, counts, status
  codes) is an integer far below \<open>2 ^ 53\<close> or a small fraction, where the IEEE arithmetic
  of the program and the arithmetic of the reals agree.
\<close>

datatype number = NaN | PosInfinity | NegInfinity | Fin real

datatype error =
    TypeError string
  | RangeError string
  | SyntaxError string
  | Failure string

fun message :: "error \<Rightarrow> string" where
  "message (TypeError m) = m"
| "message (RangeError m) = m"
| "message (SyntaxError m) = m"
| "message (Failure m) = m"

text \<open>What a callable of the program is applied to.\<close>

datatype jsarg =
    ArgNumber real
  | ArgBoolean bool
  | ArgURL string
  | ArgHeaderLink "(string \<times> string) list"

text \<open>
  A value as a caller can pass it.  \<open>Function f\<close> is a callable: \<open>f args\<close> is the value
  it returns (\<open>Inr\<close>) or the error it throws (\<open>Inl\<close>).
\<close>

datatype jsval =
    Undefined
  | Null
  | Boolean bool
  | Number number
  | String string
  | URL string
  | EventEmitter
  | Object
  | Function "jsarg list \<Rightarrow> error + jsval"

text \<open>\<^verbatim>\<open>!v\<close> is \<open>\<not> truthy v\<close>.\<close>

fun truthy :: "jsval \<Rightarrow> bool" where
  "truthy Undefined = False"
| "truthy Null = False"
| "truthy (Boolean b) = b"
| "truthy (Number NaN) = False"
| "truthy (Number (Fin r)) = (r \<noteq> 0)"
| "truthy (Number _) = True"
| "truthy (String s) = (s \<noteq> [])"
| "truthy _ = True"

text \<open>\<^verbatim>\<open>Math.max(a, d)\<close> for a finite \<open>a\<close>: \<open>NaN\<close> if \<open>d\<close> is.\<close>

fun Math_max :: "real \<Rightarrow> number \<Rightarrow> number" where
  "Math_max a NaN = NaN"
| "Math_max a PosInfinity = PosInfinity"
| "Math_max a NegInfinity = Fin a"
| "Math_max a (Fin d) = Fin (max a d)"

text \<open>\<^verbatim>\<open>x - t\<close> for a finite \<open>t\<close>.\<close>

fun minus_number :: "number \<Rightarrow> real \<Rightarrow> number" where
  "minus_number (Fin x) t = Fin (x - t)"
| "minus_number x t = x"

section \<open>Responses, the transport and the clock\<close>

text \<open>
  Modelled from the spec: \<^verbatim>\<open>HTTPHeaderLink\<close> of \<^verbatim>\<open>./header/link.ts\<close>, which is not among
  the sources.  The spec has the parser return "a structure allowing lookup of URL entries
  by relation name": the entries as pairs of target and relation name.
\<close>

type_synonym headerLink = "(string \<times> string) list"

text \<open>
  A response as the program reads it: \<^verbatim>\<open>status\<close>, \<^verbatim>\<open>statusText\<close>, the headers behind
  \<^verbatim>\<open>headers.get\<close>, and \<open>link\<close>, what \<^verbatim>\<open>HTTPHeaderLink.parse(response)\<close> yields for this
  response: the parser "raises a parse error on malformed input" (\<open>Inl\<close>).
\<close>

record response =
  status :: nat
  statusText :: string
  headers :: "(string \<times> string) list"
  link :: "error + headerLink"

text \<open>\<^verbatim>\<open>response.ok\<close>: the status is in the range 200 to 299.\<close>

definition ok :: "response \<Rightarrow> bool" where
  "ok r = (200 \<le> status r \<and> status r \<le> 299)"

text \<open>
  Modelled from the spec: \<^verbatim>\<open>getByRel\<close> of \<^verbatim>\<open>HTTPHeaderLink\<close>, the lookup of the entries by
  relation name.
\<close>

definition getByRel :: "headerLink \<Rightarrow> string \<Rightarrow> headerLink" where
  "getByRel entries rel = filter (\<lambda>e. snd e = rel) entries"

text \<open>
  What surrounds the program, over a state \<open>'w\<close> of the outside world:
  \<^item> \<open>send w url\<close> is the transport \<^verbatim>\<open>fetch(input, init)\<close>: the response or the error the
    call ends with, and the world after it;
  \<^item> \<open>dateParse\<close> is \<^verbatim>\<open>Date.parse\<close> and \<open>dateNow\<close> is \<^verbatim>\<open>Date.now()\<close>;
  \<^item> \<open>mathRandom\<close> is the draw in \<open>[0, 1)\<close> the backoff calculator makes;
  \<^item> \<open>newURL target base\<close> is \<^verbatim>\<open>new URL(target, base)\<close>, \<open>None\<close> when it throws.
\<close>

record 'w env =
  send :: "'w \<Rightarrow> string \<Rightarrow> (error + response) \<times> 'w"
  dateParse :: "string \<Rightarrow> error + number"
  dateNow :: "'w \<Rightarrow> real"
  mathRandom :: "'w \<Rightarrow> real"
  newURL :: "string \<Rightarrow> string \<Rightarrow> string option"

section \<open>The configured instance\<close>

record paginateOptionsBase =
  count :: number
  linkUpNextPage :: "(jsarg list \<Rightarrow> error + jsval) option"
  pause :: number
  throwOnInvalidHeaderLink :: bool

record retryOptionsBase =
  attempts :: nat
  backoffMultiplier :: real
  condition :: "(jsarg list \<Rightarrow> error + jsval) option"
  delayMaximum :: real
  delayMinimum :: real
  jitter :: real

record exFetch =
  priv_event :: bool
  priv_paginate :: paginateOptionsBase
  priv_retry :: retryOptionsBase
  priv_timeout :: number

definition statusCodeRetryable :: "nat set" where
  "statusCodeRetryable = {408, 429, 500, 502, 503, 504, 506, 507, 508}"

text \<open>The field initialisers of the class.\<close>

definition paginateDefault :: paginateOptionsBase where
  "paginateDefault =
     \<lparr>count = PosInfinity, linkUpNextPage = None, pause = Fin 0, throwOnInvalidHeaderLink = True\<rparr>"

definition retryDefault :: retryOptionsBase where
  "retryDefault =
     \<lparr>attempts = 4, backoffMultiplier = 2, condition = None, delayMaximum = 60000,
      delayMinimum = 1000, jitter = 1\<rparr>"

section \<open>The retry loop of \<^verbatim>\<open>fetch\<close>\<close>

record eventRetryPayload =
  attemptCurrent :: nat
  payloadAttempts :: nat
  retryAfter :: number
  statusCode :: nat
  payloadStatusText :: string

text \<open>What one call does to the outside, in order.\<close>

datatype effect =
    Sent string
  | Emitted eventRetryPayload
  | Waited number

text \<open>
  Modelled from the spec: \<^verbatim>\<open>./internal/jitter.ts\<close> is not among the sources.  The spec's
  backoff calculator is "exponential backoff \<open>min(cap, base * multiplier^attempt)\<close>, then
  apply full-range jitter [...] where the jitter factor linearly interpolates between the
  unjittered value (jitter=0) and a uniform draw over [0, exponential value] (jitter=1)";
  \<open>u\<close> is the uniform draw in \<open>[0, 1)\<close>.  The floor of 1000 ms is applied by \<^verbatim>\<open>fetch\<close>.
\<close>

definition exponentialBackoffWithJitter :: "nat \<Rightarrow> real \<Rightarrow> real \<Rightarrow> real \<Rightarrow> real \<Rightarrow> real \<Rightarrow> real" where
  "exponentialBackoffWithJitter attempt base cap jit multiplier u =
     (let exponential = min cap (base * multiplier ^ attempt)
      in (1 - jit) * exponential + jit * (u * exponential))"

text \<open>\<^verbatim>\<open>/^[1-9]\d*$/u.test(value)\<close>\<close>

definition isDigit :: "char \<Rightarrow> bool" where
  "isDigit c = (c \<in> set ''0123456789'')"

fun testPositiveInteger :: "string \<Rightarrow> bool" where
  "testPositiveInteger [] = False"
| "testPositiveInteger (c # cs) = (isDigit c \<and> c \<noteq> CHR ''0'' \<and> list_all isDigit cs)"

text \<open>\<^verbatim>\<open>Number(value)\<close> on a string of decimal digits.\<close>

definition digitValue :: "char \<Rightarrow> nat" where
  "digitValue c = of_char c - 48"

definition NumberOfDigits :: "string \<Rightarrow> real" where
  "NumberOfDigits value = real (foldl (\<lambda>a c. 10 * a + digitValue c) 0 value)"

text \<open>
  The loop over \<^verbatim>\<open>["Retry-After", "x-ratelimit-reset"]\<close>; \<open>delayTime\<close> is \<open>None\<close> while
  the variable is \<^verbatim>\<open>undefined\<close>, and \<^verbatim>\<open>??=\<close> assigns only then.  The \<^verbatim>\<open>catch\<close> clause is
  the branch where \<open>dateParse\<close> throws.
\<close>

fun assignIfNullish :: "number option \<Rightarrow> number \<Rightarrow> number option" where
  "assignIfNullish None x = Some x"
| "assignIfNullish (Some d) x = Some d"

fun readRetryHeaders :: "'w env \<Rightarrow> 'w \<Rightarrow> response \<Rightarrow> string list \<Rightarrow> number option \<Rightarrow> number option" where
  "readRetryHeaders e w r [] delayTime = delayTime"
| "readRetryHeaders e w r (headerName # rest) delayTime =
     readRetryHeaders e w r rest
       (case map_of (headers r) headerName of
          None \<Rightarrow> delayTime
        | Some value \<Rightarrow>
            if testPositiveInteger value
            then assignIfNullish delayTime (Fin (NumberOfDigits value * 1000))
            else (case dateParse e value of
                    Inl err \<Rightarrow> delayTime
                  | Inr t \<Rightarrow> assignIfNullish delayTime (minus_number t (dateNow e w))))"

text \<open>The delay of one retry: the header loop, the fallback, the floor.\<close>

definition delayTimeOf :: "'w env \<Rightarrow> retryOptionsBase \<Rightarrow> 'w \<Rightarrow> response \<Rightarrow> number" where
  "delayTimeOf e ro w r =
     Math_max 1000
       (case readRetryHeaders e w r [''Retry-After'', ''x-ratelimit-reset''] None of
          Some d \<Rightarrow> d
        | None \<Rightarrow>
            Fin (exponentialBackoffWithJitter (attempts ro) (delayMinimum ro) (delayMaximum ro)
                   (jitter ro) (backoffMultiplier ro) (mathRandom e w)))"

text \<open>
  Whether the response asks for another attempt: the custom condition when there is one,
  the standard classification otherwise.  \<open>Inl\<close> when the condition throws.
\<close>

definition wantsRetry :: "retryOptionsBase \<Rightarrow> response \<Rightarrow> error + bool" where
  "wantsRetry ro r =
     (let retryable = (status r \<in> statusCodeRetryable)
      in case condition ro of
           Some f \<Rightarrow>
             (case f [ArgNumber (real (status r)), ArgBoolean retryable] of
                Inl err \<Rightarrow> Inl err
              | Inr v \<Rightarrow> Inr (truthy v))
         | None \<Rightarrow> Inr retryable)"

text \<open>
  The \<^verbatim>\<open>do ... while\<close> loop of \<^verbatim>\<open>fetch\<close>, entered with the value of \<^verbatim>\<open>attempt\<close>.  The
  abort signal is not part of the model: no wait and no request is cancelled.
\<close>

function fetchLoop ::
  "'w env \<Rightarrow> exFetch \<Rightarrow> string \<Rightarrow> nat \<Rightarrow> 'w \<Rightarrow> effect list
     \<Rightarrow> (error + response) \<times> 'w \<times> effect list" where
  "fetchLoop e self input attempt w tr =
     (case send e w input of
        (Inl err, w') \<Rightarrow> (Inl err, w', tr @ [Sent input])
      | (Inr r, w') \<Rightarrow>
          (case wantsRetry (priv_retry self) r of
             Inl err \<Rightarrow> (Inl err, w', tr @ [Sent input])
           | Inr False \<Rightarrow> (Inr r, w', tr @ [Sent input])
           | Inr True \<Rightarrow>
               if attempt \<ge> attempts (priv_retry self) then (Inr r, w', tr @ [Sent input])
               else
                 (let delayTime = delayTimeOf e (priv_retry self) w' r;
                      eventRetryPayload =
                        \<lparr>attemptCurrent = attempt + 1,
                         payloadAttempts = attempts (priv_retry self),
                         retryAfter = delayTime,
                         statusCode = status r,
                         payloadStatusText = statusText r\<rparr>;
                      tr' = tr @ [Sent input]
                              @ (if priv_event self then [Emitted eventRetryPayload] else [])
                              @ [Waited delayTime]
                  in if attempt + 1 \<le> attempts (priv_retry self)
                     then fetchLoop e self input (attempt + 1) w' tr'
                     else (Inr r, w', tr'))))"
  by pat_completeness auto
termination
  by (relation "measure (\<lambda>(e, self, input, attempt, w, tr). attempts (priv_retry self) - attempt)")
     auto

declare fetchLoop.simps [simp del]

definition fetch :: "'w env \<Rightarrow> exFetch \<Rightarrow> string \<Rightarrow> 'w \<Rightarrow> (error + response) \<times> 'w \<times> effect list" where
  "fetch e self input w = fetchLoop e self input 0 w []"

section \<open>The page loop of \<^verbatim>\<open>fetchPaginate\<close>\<close>

text \<open>Comparisons of a number with a finite value; every comparison with \<open>NaN\<close> is false.\<close>

fun le_number :: "real \<Rightarrow> number \<Rightarrow> bool" where
  "le_number x (Fin c) = (x \<le> c)"
| "le_number x PosInfinity = True"
| "le_number x _ = False"

fun gt_number :: "number \<Rightarrow> real \<Rightarrow> bool" where
  "gt_number (Fin c) x = (c > x)"
| "gt_number PosInfinity x = True"
| "gt_number _ x = False"

text \<open>
  The \<^verbatim>\<open>try\<close> block that looks for the next page: the parse of the link metadata, then
  the custom \<^verbatim>\<open>linkUpNextPage\<close> or the first entry of relation \<^verbatim>\<open>next\<close>, resolved against
  the current URL.  \<open>Inl\<close> is what the \<^verbatim>\<open>catch\<close> clause receives; indexing the empty
  result of \<^verbatim>\<open>getByRel\<close> with \<^verbatim>\<open>[0][0]\<close> throws a \<^verbatim>\<open>TypeError\<close>.  The messages of the
  two errors that the engine raises are shortened.
\<close>

definition linkUpNext :: "'w env \<Rightarrow> paginateOptionsBase \<Rightarrow> string \<Rightarrow> response \<Rightarrow> error + jsval" where
  "linkUpNext e optionsResolve uriLookUp r =
     (case link r of
        Inl err \<Rightarrow> Inl err
      | Inr responseHeaderLink \<Rightarrow>
          (case linkUpNextPage optionsResolve of
             Some f \<Rightarrow> f [ArgURL uriLookUp, ArgHeaderLink responseHeaderLink]
           | None \<Rightarrow>
               (case getByRel responseHeaderLink ''next'' of
                  [] \<Rightarrow> Inl (TypeError ''Cannot read properties of undefined'')
                | entry # _ \<Rightarrow>
                    (case newURL e (fst entry) uriLookUp of
                       None \<Rightarrow> Inl (TypeError ''Invalid URL'')
                     | Some u \<Rightarrow> Inr (URL u)))))"

text \<open>
  The \<^verbatim>\<open>for\<close> loop, entered with \<^verbatim>\<open>page\<close>, \<^verbatim>\<open>uri\<close> and \<^verbatim>\<open>responses\<close>; its
  condition is \<^verbatim>\<open>page <= optionsResolve.count && uri instanceof URL\<close>.  With
  \<^verbatim>\<open>count\<close> infinite the loop runs for as long as pages link on, so the model takes a
  bound on the pages it may fetch and is \<open>None\<close> when the loop wants more.
\<close>

fun paginateLoop ::
  "nat \<Rightarrow> 'w env \<Rightarrow> exFetch \<Rightarrow> paginateOptionsBase \<Rightarrow> nat \<Rightarrow> jsval \<Rightarrow> response list \<Rightarrow> 'w
     \<Rightarrow> effect list \<Rightarrow> ((error + response list) \<times> 'w \<times> effect list) option" where
  "paginateLoop fuel e self optionsResolve page uri responses w tr =
     (case uri of
        URL uriLookUp \<Rightarrow>
          if \<not> le_number (real page) (count optionsResolve) then Some (Inr responses, w, tr)
          else
            (case fuel of
               0 \<Rightarrow> None
             | Suc fuel' \<Rightarrow>
                 (let tr1 = tr @ (if page > 1 \<and> gt_number (pause optionsResolve) 0
                                  then [Waited (pause optionsResolve)] else [])
                  in case fetch e self uriLookUp w of
                       (Inl err, w', t) \<Rightarrow> Some (Inl err, w', tr1 @ t)
                     | (Inr r, w', t) \<Rightarrow>
                         if ok r then
                           (case linkUpNext e optionsResolve uriLookUp r of
                              Inr uri' \<Rightarrow>
                                paginateLoop fuel' e self optionsResolve (page + 1) uri'
                                  (responses @ [r]) w' (tr1 @ t)
                            | Inl err \<Rightarrow>
                                if throwOnInvalidHeaderLink optionsResolve
                                then Some (Inl (SyntaxError (''['' @ uriLookUp @ ''] '' @ message err)),
                                           w', tr1 @ t)
                                else paginateLoop fuel' e self optionsResolve (page + 1) Undefined
                                       (responses @ [r]) w' (tr1 @ t))
                         else paginateLoop fuel' e self optionsResolve (page + 1) Undefined
                                (responses @ [r]) w' (tr1 @ t)))
      | _ \<Rightarrow> Some (Inr responses, w, tr))"

declare paginateLoop.simps [simp del]

section \<open>Option objects and their validation\<close>

text \<open>
  An options object is the list of its own properties; \<open>get\<close> reads one, \<^verbatim>\<open>undefined\<close>
  when the object has none of that name.
\<close>

type_synonym jsobject = "(string \<times> jsval) list"

definition get :: "jsobject \<Rightarrow> string \<Rightarrow> jsval" where
  "get obj k = (case map_of obj k of None \<Rightarrow> Undefined | Some v \<Rightarrow> v)"

text \<open>\<^verbatim>\<open>a ?? b ?? ... ?? z\<close>: the first operand that is neither null nor undefined, else the last.\<close>

fun nullish :: "jsval \<Rightarrow> bool" where
  "nullish Undefined = True"
| "nullish Null = True"
| "nullish _ = False"

fun coalesce :: "jsval list \<Rightarrow> jsval" where
  "coalesce [] = Undefined"
| "coalesce [v] = v"
| "coalesce (v # vs) = (if nullish v then coalesce vs else v)"

definition MAX_SAFE_INTEGER :: real where
  "MAX_SAFE_INTEGER = 9007199254740991"

text \<open>\<^verbatim>\<open>Number.isSafeInteger\<close> on a finite value.\<close>

definition isSafeInteger :: "real \<Rightarrow> bool" where
  "isSafeInteger x = (real_of_int \<lfloor>x\<rfloor> = x \<and> \<bar>x\<bar> \<le> MAX_SAFE_INTEGER)"

text \<open>
  The checks of one field are written by the shape of the value: a finite number, an
  infinity (a number that is no safe integer), \<open>NaN\<close> (of type number, and so "not
  undefined"), \<^verbatim>\<open>undefined\<close>, anything else.
\<close>

definition checkPaginateOptions :: "jsobject \<Rightarrow> string \<Rightarrow> error + unit" where
  "checkPaginateOptions options prefix =
     (let countError =
            (case get options ''count'' of
               Number (Fin x) \<Rightarrow>
                 if \<not> (isSafeInteger x \<and> x > 0)
                 then Some (RangeError (''Argument `'' @ prefix @ ''.count` must be a number which is integer, positive, safe, and > 0!''))
                 else None
             | Number PosInfinity \<Rightarrow> None
             | Number NegInfinity \<Rightarrow>
                 Some (RangeError (''Argument `'' @ prefix @ ''.count` must be a number which is integer, positive, safe, and > 0!''))
             | Undefined \<Rightarrow> None
             | _ \<Rightarrow> Some (TypeError (''Argument `'' @ prefix @ ''.count` must be type of number or undefined!'')));
          linkUpNextPageError =
            (case get options ''linkUpNextPage'' of
               Function f \<Rightarrow> None
             | Undefined \<Rightarrow> None
             | _ \<Rightarrow> Some (TypeError (''Argument `'' @ prefix @ ''.linkUpNextPage` must be type of function or undefined!'')));
          pauseError =
            (case get options ''pause'' of
               Number (Fin x) \<Rightarrow>
                 if \<not> (isSafeInteger x \<and> x \<ge> 0)
                 then Some (RangeError (''Argument `'' @ prefix @ ''.pause` must be a number which is integer, positive, and safe!''))
                 else None
             | Number PosInfinity \<Rightarrow>
                 Some (RangeError (''Argument `'' @ prefix @ ''.pause` must be a number which is integer, positive, and safe!''))
             | Number NegInfinity \<Rightarrow>
                 Some (RangeError (''Argument `'' @ prefix @ ''.pause` must be a number which is integer, positive, and safe!''))
             | Undefined \<Rightarrow> None
             | _ \<Rightarrow> Some (TypeError (''Argument `'' @ prefix @ ''.pause` must be type of number or undefined!'')));
          throwOnInvalidHeaderLinkError =
            (case get options ''throwOnInvalidHeaderLink'' of
               Boolean b \<Rightarrow> None
             | Undefined \<Rightarrow> None
             | _ \<Rightarrow> Some (TypeError (''Argument `'' @ prefix @ ''.throwOnInvalidHeaderLink` must be type of boolean or undefined!'')))
      in case countError of
           Some err \<Rightarrow> Inl err
         | None \<Rightarrow>
             (case linkUpNextPageError of
                Some err \<Rightarrow> Inl err
              | None \<Rightarrow>
                  (case pauseError of
                     Some err \<Rightarrow> Inl err
                   | None \<Rightarrow>
                       (case throwOnInvalidHeaderLinkError of
                          Some err \<Rightarrow> Inl err
                        | None \<Rightarrow> Inr ()))))"

text \<open>
  \<^verbatim>\<open>{ ...base, ...options }\<close> for an \<open>options\<close> that passed \<open>checkPaginateOptions\<close>: every
  property the object has replaces the field, also one whose value is \<^verbatim>\<open>undefined\<close>.  The
  loop reads an undefined \<^verbatim>\<open>count\<close> or \<^verbatim>\<open>pause\<close> in a comparison, where it is \<open>NaN\<close>, and
  an undefined \<^verbatim>\<open>throwOnInvalidHeaderLink\<close> as a condition, where it is false.
\<close>

definition spreadPaginate :: "paginateOptionsBase \<Rightarrow> jsobject \<Rightarrow> paginateOptionsBase" where
  "spreadPaginate base options =
     \<lparr>count = (case map_of options ''count'' of
                 None \<Rightarrow> count base | Some (Number n) \<Rightarrow> n | Some _ \<Rightarrow> NaN),
      linkUpNextPage = (case map_of options ''linkUpNextPage'' of
                 None \<Rightarrow> linkUpNextPage base | Some (Function f) \<Rightarrow> Some f | Some _ \<Rightarrow> None),
      pause = (case map_of options ''pause'' of
                 None \<Rightarrow> pause base | Some (Number n) \<Rightarrow> n | Some _ \<Rightarrow> NaN),
      throwOnInvalidHeaderLink = (case map_of options ''throwOnInvalidHeaderLink'' of
                 None \<Rightarrow> throwOnInvalidHeaderLink base | Some v \<Rightarrow> truthy v)\<rparr>"

text \<open>
  \<^verbatim>\<open>fetchPaginate(input, init, optionsOverride)\<close>; \<open>input\<close> is the absolute URL of the
  first page, \<open>fuel\<close> the bound on the pages fetched.
\<close>

definition fetchPaginate ::
  "nat \<Rightarrow> 'w env \<Rightarrow> exFetch \<Rightarrow> string \<Rightarrow> jsobject \<Rightarrow> 'w
     \<Rightarrow> ((error + response list) \<times> 'w \<times> effect list) option" where
  "fetchPaginate fuel e self input optionsOverride w =
     (case checkPaginateOptions optionsOverride ''optionsOverride'' of
        Inl err \<Rightarrow> Some (Inl err, w, [])
      | Inr u \<Rightarrow>
          paginateLoop fuel e self (spreadPaginate (priv_paginate self) optionsOverride)
            1 (URL input) [] w [])"

section \<open>The constructor\<close>

record exFetchOptions =
  event :: jsval
  paginate :: "jsobject option"
  retry :: "jsobject option"
  timeout :: jsval

text \<open>
  \<^verbatim>\<open>randomInt(min, max)\<close> of \<^verbatim>\<open>node:crypto\<close> gives an integer from \<open>min\<close> up to, and not
  including, \<open>max\<close>; \<open>entropy\<close> is what the generator draws.
\<close>

definition randomInt :: "nat \<Rightarrow> nat \<Rightarrow> nat \<Rightarrow> nat" where
  "randomInt lo hi entropy = lo + entropy mod (hi - lo)"

text \<open>
  One definition for each field of \<^verbatim>\<open>options.retry\<close> the constructor validates and
  stores, in the order of the source.
\<close>

definition set_attempts :: "jsval \<Rightarrow> retryOptionsBase \<Rightarrow> error + retryOptionsBase" where
  "set_attempts v ro =
     (case v of
        Number (Fin x) \<Rightarrow>
          if \<not> (isSafeInteger x \<and> x \<ge> 0)
          then Inl (RangeError ''Argument `options.retry.attempts` must be a number which is integer, positive, and safe!'')
          else Inr (ro\<lparr>attempts := nat \<lfloor>x\<rfloor>\<rparr>)
      | Number PosInfinity \<Rightarrow>
          Inl (RangeError ''Argument `options.retry.attempts` must be a number which is integer, positive, and safe!'')
      | Number NegInfinity \<Rightarrow>
          Inl (RangeError ''Argument `options.retry.attempts` must be a number which is integer, positive, and safe!'')
      | Undefined \<Rightarrow> Inr ro
      | _ \<Rightarrow> Inl (TypeError ''Argument `options.retry.attempts` must be type of number or undefined!''))"

definition set_backoffMultiplier :: "jsval \<Rightarrow> retryOptionsBase \<Rightarrow> error + retryOptionsBase" where
  "set_backoffMultiplier v ro =
     (case v of
        Number (Fin x) \<Rightarrow>
          if \<not> (x \<ge> 1 \<and> x \<le> MAX_SAFE_INTEGER)
          then Inl (RangeError ''Argument `options.retry.backoffMultiplier` must be a number which is positive, safe, and >= 1!'')
          else Inr (ro\<lparr>backoffMultiplier := x\<rparr>)
      | Number PosInfinity \<Rightarrow>
          Inl (RangeError ''Argument `options.retry.backoffMultiplier` must be a number which is positive, safe, and >= 1!'')
      | Number NegInfinity \<Rightarrow>
          Inl (RangeError ''Argument `options.retry.backoffMultiplier` must be a number which is positive, safe, and >= 1!'')
      | Undefined \<Rightarrow> Inr ro
      | _ \<Rightarrow> Inl (TypeError ''Argument `options.retry.backoffMultiplier` must be type of number or undefined!''))"

text \<open>
  The condition is called once, on a random status code and \<^verbatim>\<open>true\<close>; the second
  component lists the calls made.
\<close>

definition probeArgs :: "nat \<Rightarrow> jsarg list" where
  "probeArgs entropy = [ArgNumber (real (randomInt 100 600 entropy)), ArgBoolean True]"

definition set_condition ::
  "jsval \<Rightarrow> nat \<Rightarrow> retryOptionsBase \<Rightarrow> (error + retryOptionsBase) \<times> jsarg list list" where
  "set_condition v entropy ro =
     (case v of
        Function f \<Rightarrow>
          (case f (probeArgs entropy) of
             Inl err \<Rightarrow> (Inl err, [probeArgs entropy])
           | Inr (Boolean b) \<Rightarrow> (Inr (ro\<lparr>condition := Some f\<rparr>), [probeArgs entropy])
           | Inr _ \<Rightarrow>
               (Inl (TypeError ''Argument `options.retry.condition` must be return type of boolean!''),
                [probeArgs entropy]))
      | Undefined \<Rightarrow> (Inr ro, [])
      | _ \<Rightarrow>
          (Inl (TypeError ''Argument `options.retry.condition` must be type of function or undefined!''),
           []))"

definition set_delayMaximum :: "jsval \<Rightarrow> retryOptionsBase \<Rightarrow> error + retryOptionsBase" where
  "set_delayMaximum v ro =
     (case v of
        Number (Fin x) \<Rightarrow>
          if \<not> (isSafeInteger x \<and> x > 0)
          then Inl (RangeError ''Argument `options.retry.delayMaximum` must be a number which is integer, positive, safe, and > 0!'')
          else Inr (ro\<lparr>delayMaximum := x\<rparr>)
      | Number PosInfinity \<Rightarrow>
          Inl (RangeError ''Argument `options.retry.delayMaximum` must be a number which is integer, positive, safe, and > 0!'')
      | Number NegInfinity \<Rightarrow>
          Inl (RangeError ''Argument `options.retry.delayMaximum` must be a number which is integer, positive, safe, and > 0!'')
      | Undefined \<Rightarrow> Inr ro
      | _ \<Rightarrow> Inl (TypeError ''Argument `options.retry.delayMaximum` must be type of number or undefined!''))"

text \<open>
  The message of the range error quotes the maximum; the model keeps the text up to it.
\<close>

definition set_delayMinimum :: "jsval \<Rightarrow> retryOptionsBase \<Rightarrow> error + retryOptionsBase" where
  "set_delayMinimum v ro =
     (case v of
        Number (Fin x) \<Rightarrow>
          if \<not> (isSafeInteger x \<and> x > 0 \<and> x < delayMaximum ro)
          then Inl (RangeError ''Argument `options.retry.delayMinimum` must be a number which is integer, positive, safe, > 0, and < '')
          else Inr (ro\<lparr>delayMinimum := x\<rparr>)
      | Number PosInfinity \<Rightarrow>
          Inl (RangeError ''Argument `options.retry.delayMinimum` must be a number which is integer, positive, safe, > 0, and < '')
      | Number NegInfinity \<Rightarrow>
          Inl (RangeError ''Argument `options.retry.delayMinimum` must be a number which is integer, positive, safe, > 0, and < '')
      | Undefined \<Rightarrow> Inr ro
      | _ \<Rightarrow> Inl (TypeError ''Argument `options.retry.delayMinimum` must be type of number or undefined!''))"

definition set_jitter :: "jsval \<Rightarrow> retryOptionsBase \<Rightarrow> error + retryOptionsBase" where
  "set_jitter v ro =
     (case v of
        Number (Fin x) \<Rightarrow>
          if \<not> (x \<ge> 0 \<and> x \<le> 1)
          then Inl (RangeError ''Argument `options.retry.jitter` must be a number which is between 0 and 1!'')
          else Inr (ro\<lparr>jitter := x\<rparr>)
      | Number PosInfinity \<Rightarrow>
          Inl (RangeError ''Argument `options.retry.jitter` must be a number which is between 0 and 1!'')
      | Number NegInfinity \<Rightarrow>
          Inl (RangeError ''Argument `options.retry.jitter` must be a number which is between 0 and 1!'')
      | Undefined \<Rightarrow> Inr ro
      | _ \<Rightarrow> Inl (TypeError ''Argument `options.retry.jitter` must be type of number or undefined!''))"

definition check_event :: "jsval \<Rightarrow> error + bool" where
  "check_event v =
     (case v of
        EventEmitter \<Rightarrow> Inr True
      | Undefined \<Rightarrow> Inr False
      | _ \<Rightarrow> Inl (TypeError ''Argument `options.event` must be instance of EventEmitter or type of undefined!''))"

definition check_timeout :: "jsval \<Rightarrow> error + number" where
  "check_timeout v =
     (case v of
        Number (Fin x) \<Rightarrow>
          if \<not> (isSafeInteger x \<and> x > 0)
          then Inl (RangeError ''Argument `options.timeout` must be a number which is integer, positive, safe, and > 0!'')
          else Inr (Fin x)
      | Number PosInfinity \<Rightarrow> Inr PosInfinity
      | Number NegInfinity \<Rightarrow>
          Inl (RangeError ''Argument `options.timeout` must be a number which is integer, positive, safe, and > 0!'')
      | Undefined \<Rightarrow> Inr PosInfinity
      | _ \<Rightarrow> Inl (TypeError ''Argument `options.timeout` must be type of number or undefined!''))"

text \<open>The aliases of a field, as the \<^verbatim>\<open>??=\<close> lines at the head of the constructor read them.\<close>

definition resolve_attempts :: "jsobject \<Rightarrow> jsval" where
  "resolve_attempts r =
     coalesce [get r ''attempts'', get r ''attemptsMaximum'', get r ''attemptsMax'',
               get r ''maximumAttempts'', get r ''maxAttempts'']"

definition resolve_backoffMultiplier :: "jsobject \<Rightarrow> jsval" where
  "resolve_backoffMultiplier r =
     coalesce [get r ''backoffMultiplier'', get r ''backoffMultiply'', get r ''multiplier'',
               get r ''multiply'']"

definition resolve_delayMaximum :: "jsobject \<Rightarrow> jsval" where
  "resolve_delayMaximum r =
     coalesce [get r ''delayMaximum'', get r ''delayMax'', get r ''maximumDelay'',
               get r ''maxDelay'', get r ''timeoutMaximum'', get r ''timeoutMax'',
               get r ''maximumTimeout'', get r ''maxTimeout'']"

definition resolve_delayMinimum :: "jsobject \<Rightarrow> jsval" where
  "resolve_delayMinimum r =
     coalesce [get r ''delayMinimum'', get r ''delayMin'', get r ''minimumDelay'',
               get r ''minDelay'', get r ''timeoutMinimum'', get r ''timeoutMin'',
               get r ''minimumTimeout'', get r ''minTimeout'']"

text \<open>
  The part of the constructor that fills \<^verbatim>\<open>this.#retry\<close> from \<^verbatim>\<open>options.retry\<close>, starting
  from the field initialisers.
\<close>

definition configureRetry :: "jsobject \<Rightarrow> nat \<Rightarrow> (error + retryOptionsBase) \<times> jsarg list list" where
  "configureRetry r entropy =
     (case set_attempts (resolve_attempts r) retryDefault of
        Inl err \<Rightarrow> (Inl err, [])
      | Inr ro1 \<Rightarrow>
     (case set_backoffMultiplier (resolve_backoffMultiplier r) ro1 of
        Inl err \<Rightarrow> (Inl err, [])
      | Inr ro2 \<Rightarrow>
     (case set_condition (get r ''condition'') entropy ro2 of
        (Inl err, calls) \<Rightarrow> (Inl err, calls)
      | (Inr ro3, calls) \<Rightarrow>
     (case set_delayMaximum (resolve_delayMaximum r) ro3 of
        Inl err \<Rightarrow> (Inl err, calls)
      | Inr ro4 \<Rightarrow>
     (case set_delayMinimum (resolve_delayMinimum r) ro4 of
        Inl err \<Rightarrow> (Inl err, calls)
      | Inr ro5 \<Rightarrow>
     (case set_jitter (get r ''jitter'') ro5 of
        Inl err \<Rightarrow> (Inl err, calls)
      | Inr ro6 \<Rightarrow> (Inr ro6, calls)))))))"

text \<open>
  \<^verbatim>\<open>new ExFetch(options)\<close>: the instance or the error thrown, and the calls made to
  \<^verbatim>\<open>options.retry.condition\<close> on the way.
\<close>

definition newExFetch :: "exFetchOptions \<Rightarrow> nat \<Rightarrow> (error + exFetch) \<times> jsarg list list" where
  "newExFetch options entropy =
     (let r = (case retry options of None \<Rightarrow> [] | Some obj \<Rightarrow> obj);
          p = (case paginate options of None \<Rightarrow> [] | Some obj \<Rightarrow> obj)
      in case check_event (event options) of
           Inl err \<Rightarrow> (Inl err, [])
         | Inr ev \<Rightarrow>
        (case checkPaginateOptions p ''options.paginate'' of
           Inl err \<Rightarrow> (Inl err, [])
         | Inr u \<Rightarrow>
        (case configureRetry r entropy of
           (Inl err, calls) \<Rightarrow> (Inl err, calls)
         | (Inr ro, calls) \<Rightarrow>
        (case check_timeout (timeout options) of
           Inl err \<Rightarrow> (Inl err, calls)
         | Inr t \<Rightarrow>
             (Inr \<lparr>priv_event = ev, priv_paginate = spreadPaginate paginateDefault p,
                   priv_retry = ro, priv_timeout = t\<rparr>,
              calls)))))"

section \<open>Observing a run\<close>

text \<open>The requests sent, the delays waited and the retry events emitted, in order.\<close>

fun requestOf :: "effect \<Rightarrow> string list" where
  "requestOf (Sent u) = [u]"
| "requestOf _ = []"

fun waitOf :: "effect \<Rightarrow> number list" where
  "waitOf (Waited d) = [d]"
| "waitOf _ = []"

fun eventOf :: "effect \<Rightarrow> eventRetryPayload list" where
  "eventOf (Emitted p) = [p]"
| "eventOf _ = []"

definition requests :: "effect list \<Rightarrow> string list" where
  "requests tr = concat (map requestOf tr)"

definition waits :: "effect list \<Rightarrow> number list" where
  "waits tr = concat (map waitOf tr)"

definition events :: "effect list \<Rightarrow> eventRetryPayload list" where
  "events tr = concat (map eventOf tr)"

text \<open>What the loop of \<^verbatim>\<open>fetch\<close> does between two attempts.\<close>

definition retryEffects :: "'w env \<Rightarrow> exFetch \<Rightarrow> nat \<Rightarrow> 'w \<Rightarrow> response \<Rightarrow> effect list" where
  "retryEffects e self attempt w r =
     (if priv_event self
      then [Emitted \<lparr>attemptCurrent = attempt + 1, payloadAttempts = attempts (priv_retry self),
                     retryAfter = delayTimeOf e (priv_retry self) w r, statusCode = status r,
                     payloadStatusText = statusText r\<rparr>]
      else []) @ [Waited (delayTimeOf e (priv_retry self) w r)]"

text \<open>The pause of \<^verbatim>\<open>fetchPaginate\<close> before a page.\<close>

definition pauseEffects :: "paginateOptionsBase \<Rightarrow> nat \<Rightarrow> effect list" where
  "pauseEffects optionsResolve page =
     (if page > 1 \<and> gt_number (pause optionsResolve) 0 then [Waited (pause optionsResolve)] else [])"

section \<open>A stub transport\<close>

text \<open>
  The world of the stub counts the requests sent; the server answers from the count and
  the URL.  Its \<^verbatim>\<open>Date.parse\<close> knows one date, five seconds after its \<^verbatim>\<open>Date.now()\<close>, and
  gives \<open>NaN\<close> for every other string, as \<^verbatim>\<open>Date.parse\<close> does for a string that is no
  date.
\<close>

definition stubEnv :: "(nat \<Rightarrow> string \<Rightarrow> response) \<Rightarrow> nat env" where
  "stubEnv server =
     \<lparr>send = (\<lambda>w u. (Inr (server w u), Suc w)),
      dateParse = (\<lambda>s. if s = ''Wed, 21 Oct 2015 07:28:05 GMT'' then Inr (Fin 1445412485000) else Inr NaN),
      dateNow = (\<lambda>w. 1445412480000),
      mathRandom = (\<lambda>w. 1 / 2),
      newURL = (\<lambda>target base. Some target)\<rparr>"

definition plain :: "nat \<Rightarrow> (string \<times> string) list \<Rightarrow> response" where
  "plain s hs = \<lparr>status = s, statusText = [], headers = hs, link = Inr []\<rparr>"

definition defaultInstance :: exFetch where
  "defaultInstance =
     \<lparr>priv_event = False, priv_paginate = paginateDefault, priv_retry = retryDefault,
      priv_timeout = PosInfinity\<rparr>"

definition listeningInstance :: exFetch where
  "listeningInstance = defaultInstance\<lparr>priv_event := True\<rparr>"

text \<open>A page of status 200 with the entries of its link metadata, and one whose metadata the parser rejects.\<close>

definition linked :: "(string \<times> string) list \<Rightarrow> response" where
  "linked entries = \<lparr>status = 200, statusText = ''OK'', headers = [], link = Inr entries\<rparr>"

definition malformed :: response where
  "malformed =
     \<lparr>status = 200, statusText = ''OK'', headers = [(''Link'', ''<'')],
      link = Inl (SyntaxError ''Invalid HTTP header link'')\<rparr>"

text \<open>Three pages chained by \<^verbatim>\<open>next\<close>; the last one links back only.\<close>

definition threePages :: "nat \<Rightarrow> string \<Rightarrow> response" where
  "threePages w u =
     (if u = ''https://example.com/1'' then linked [(''https://example.com/2'', ''next'')]
      else if u = ''https://example.com/2''
        then linked [(''https://example.com/1'', ''prev''), (''https://example.com/3'', ''next'')]
      else if u = ''https://example.com/3'' then linked [(''https://example.com/2'', ''prev'')]
      else plain 404 [])"

text \<open>A first page that links to a second one with malformed link metadata.\<close>

definition brokenSecondPage :: "nat \<Rightarrow> string \<Rightarrow> response" where
  "brokenSecondPage w u =
     (if u = ''https://example.com/1'' then linked [(''https://example.com/2'', ''next'')]
      else if u = ''https://example.com/2'' then malformed
      else plain 404 [])"

text \<open>Options that hold a \<^verbatim>\<open>retry\<close> object only.\<close>

definition retryOnly :: "jsobject \<Rightarrow> exFetchOptions" where
  "retryOnly obj = \<lparr>event = Undefined, paginate = None, retry = Some obj, timeout = Undefined\<rparr>"

text \<open>
  The URL that the first entry of relation \<^verbatim>\<open>next\<close> in the link metadata of a page
  resolves to, against the URL \<open>u\<close> of the page; \<open>None\<close> when the metadata is malformed,
  has no such entry, or the entry is no URL.
\<close>

definition nextLink :: "'w env \<Rightarrow> string \<Rightarrow> response \<Rightarrow> string option" where
  "nextLink e u r =
     (case link r of
        Inl err \<Rightarrow> None
      | Inr entries \<Rightarrow>
          (case getByRel entries ''next'' of
             [] \<Rightarrow> None
           | entry # rest \<Rightarrow> newURL e (fst entry) u))"




text \<open>
  Whether the constructor gets as far as \<^verbatim>\<open>options.retry.condition\<close>: the checks of
  \<^verbatim>\<open>options.event\<close>, \<^verbatim>\<open>options.paginate\<close>, \<^verbatim>\<open>retry.attempts\<close> and
  \<^verbatim>\<open>retry.backoffMultiplier\<close>, which come first, all pass.
\<close>

definition reachesCondition :: "exFetchOptions \<Rightarrow> bool" where
  "reachesCondition options =
     (let r = (case retry options of None \<Rightarrow> [] | Some obj \<Rightarrow> obj);
          p = (case paginate options of None \<Rightarrow> [] | Some obj \<Rightarrow> obj)
      in case check_event (event options) of
           Inl err \<Rightarrow> False
         | Inr ev \<Rightarrow>
        (case checkPaginateOptions p ''options.paginate'' of
           Inl err \<Rightarrow> False
         | Inr u \<Rightarrow>
        (case set_attempts (resolve_attempts r) retryDefault of
           Inl err \<Rightarrow> False
         | Inr ro1 \<Rightarrow>
        (case set_backoffMultiplier (resolve_backoffMultiplier r) ro1 of
           Inl err \<Rightarrow> False
         | Inr ro2 \<Rightarrow> True))))"


definition alwaysTrue :: "jsarg list \<Rightarrow> error + jsval" where
  "alwaysTrue args = Inr (Boolean True)"

section \<open>Steps of the retry loop\<close>

text \<open>The definitions that running an example unfolds.\<close>

lemmas run_defs = fetch_def fetchLoop.simps stubEnv_def defaultInstance_def listeningInstance_def
  retryDefault_def paginateDefault_def
  wantsRetry_def statusCodeRetryable_def plain_def delayTimeOf_def exponentialBackoffWithJitter_def
  Let_def isDigit_def NumberOfDigits_def digitValue_def

lemmas new_defs = newExFetch_def configureRetry_def resolve_attempts_def resolve_backoffMultiplier_def
  resolve_delayMaximum_def resolve_delayMinimum_def get_def check_event_def checkPaginateOptions_def
  set_attempts_def set_backoffMultiplier_def set_condition_def set_delayMaximum_def
  set_delayMinimum_def set_jitter_def check_timeout_def spreadPaginate_def retryDefault_def
  paginateDefault_def isSafeInteger_def MAX_SAFE_INTEGER_def probeArgs_def randomInt_def retryOnly_def

lemmas page_defs = fetchPaginate_def paginateLoop.simps checkPaginateOptions_def spreadPaginate_def
  get_def isSafeInteger_def MAX_SAFE_INTEGER_def linkUpNext_def getByRel_def ok_def nextLink_def
  linked_def malformed_def threePages_def brokenSecondPage_def pauseEffects_def

lemma requests_append [simp]: "requests (a @ b) = requests a @ requests b"
  by (simp add: requests_def)
lemma waits_append [simp]: "waits (a @ b) = waits a @ waits b"
  by (simp add: waits_def)
lemma events_append [simp]: "events (a @ b) = events a @ events b"
  by (simp add: events_def)
lemma requests_simps [simp]: "requests [] = []" "requests (Sent u # tr) = u # requests tr"
  "requests (Waited d # tr) = requests tr" "requests (Emitted p # tr) = requests tr"
  by (simp_all add: requests_def)
lemma waits_simps [simp]: "waits [] = []" "waits (Sent u # tr) = waits tr"
  "waits (Waited d # tr) = d # waits tr" "waits (Emitted p # tr) = waits tr"
  by (simp_all add: waits_def)
lemma events_simps [simp]: "events [] = []" "events (Sent u # tr) = events tr"
  "events (Waited d # tr) = events tr" "events (Emitted p # tr) = p # events tr"
  by (simp_all add: events_def)







lemma requests_retryEffects [simp]: "requests (retryEffects e self attempt w r) = []"
  by (simp add: retryEffects_def)

lemma waits_retryEffects [simp]:
  "waits (retryEffects e self attempt w r) = [delayTimeOf e (priv_retry self) w r]"
  by (simp add: retryEffects_def)




section \<open>Steps of the page loop\<close>

lemma paginateLoop_no_uri:
  assumes "\<forall>u. uri \<noteq> URL u"
  shows "paginateLoop fuel e self opts page uri rs w tr = Some (Inr rs, w, tr)"
  using assms by (cases uri) (simp_all add: paginateLoop.simps)

lemma paginateLoop_count_reached:
  assumes "\<not> le_number (real page) (count opts)"
  shows "paginateLoop fuel e self opts page uri rs w tr = Some (Inr rs, w, tr)"
  using assms by (cases uri) (simp_all add: paginateLoop.simps)

lemma paginateLoop_no_fuel:
  assumes "le_number (real page) (count opts)"
  shows "paginateLoop 0 e self opts page (URL u) rs w tr = None"
  using assms by (simp add: paginateLoop.simps)

lemma paginateLoop_fetch_error:
  assumes "le_number (real page) (count opts)" "fetch e self u w = (Inl err, w', t)"
  shows "paginateLoop (Suc fuel) e self opts page (URL u) rs w tr
         = Some (Inl err, w', tr @ pauseEffects opts page @ t)"
  using assms by (simp add: paginateLoop.simps [of "Suc fuel"] pauseEffects_def)

lemma paginateLoop_not_ok:
  assumes "le_number (real page) (count opts)" "fetch e self u w = (Inr r, w', t)" "\<not> ok r"
  shows "paginateLoop (Suc fuel) e self opts page (URL u) rs w tr
         = Some (Inr (rs @ [r]), w', tr @ pauseEffects opts page @ t)"
  using assms
  by (simp add: paginateLoop.simps [of "Suc fuel"] pauseEffects_def paginateLoop_no_uri)

lemma paginateLoop_next:
  assumes "le_number (real page) (count opts)" "fetch e self u w = (Inr r, w', t)" "ok r"
    and "linkUpNext e opts u r = Inr uri'"
  shows "paginateLoop (Suc fuel) e self opts page (URL u) rs w tr
         = paginateLoop fuel e self opts (Suc page) uri' (rs @ [r]) w' (tr @ pauseEffects opts page @ t)"
  using assms by (simp add: paginateLoop.simps [of "Suc fuel"] pauseEffects_def)

lemma paginateLoop_throw:
  assumes "le_number (real page) (count opts)" "fetch e self u w = (Inr r, w', t)" "ok r"
    and "linkUpNext e opts u r = Inl err" "throwOnInvalidHeaderLink opts"
  shows "paginateLoop (Suc fuel) e self opts page (URL u) rs w tr
         = Some (Inl (SyntaxError (''['' @ u @ ''] '' @ message err)), w',
                 tr @ pauseEffects opts page @ t)"
  using assms by (simp add: paginateLoop.simps [of "Suc fuel"] pauseEffects_def)

lemma paginateLoop_swallow:
  assumes "le_number (real page) (count opts)" "fetch e self u w = (Inr r, w', t)" "ok r"
    and "linkUpNext e opts u r = Inl err" "\<not> throwOnInvalidHeaderLink opts"
  shows "paginateLoop (Suc fuel) e self opts page (URL u) rs w tr
         = Some (Inr (rs @ [r]), w', tr @ pauseEffects opts page @ t)"
  using assms
  by (simp add: paginateLoop.simps [of "Suc fuel"] pauseEffects_def paginateLoop_no_uri)


lemma linkUpNext_absent:
  "link r = Inr entries \<Longrightarrow> getByRel entries ''next'' = [] \<Longrightarrow> linkUpNextPage opts = None
   \<Longrightarrow> linkUpNext e opts u r = Inl (TypeError ''Cannot read properties of undefined'')"
  by (simp add: linkUpNext_def)

lemma paginateLoop_length:
  assumes c: "count opts = Fin c"
  shows "paginateLoop fuel e self opts page uri rs w tr = Some (Inr rs', w', tr')
         \<Longrightarrow> Suc (length rs) = page \<Longrightarrow> real (length rs') \<le> max c (real (length rs))"
proof (induction fuel arbitrary: page uri rs w tr)
  case 0
  show ?case
  proof (cases "\<exists>u. uri = URL u \<and> le_number (real page) (count opts)")
    case True
    with 0 show ?thesis by (auto simp: paginateLoop_no_fuel)
  next
    case False
    then have "paginateLoop 0 e self opts page uri rs w tr = Some (Inr rs, w, tr)"
      by (cases "\<forall>u. uri \<noteq> URL u") (auto simp: paginateLoop_no_uri paginateLoop_count_reached)
    with 0 show ?thesis by simp
  qed
next
  case (Suc fuel)
  show ?case
  proof (cases "\<exists>u. uri = URL u \<and> le_number (real page) (count opts)")
    case False
    then have "paginateLoop (Suc fuel) e self opts page uri rs w tr = Some (Inr rs, w, tr)"
      by (cases "\<forall>u. uri \<noteq> URL u") (auto simp: paginateLoop_no_uri paginateLoop_count_reached)
    with Suc.prems show ?thesis by simp
  next
    case True
    then obtain u where u: "uri = URL u" and le: "le_number (real page) (count opts)" by blast
    from le c have pc: "real page \<le> c" by simp
    obtain res w1 t where f: "fetch e self u w = (res, w1, t)" by (metis prod.collapse)
    show ?thesis
    proof (cases res)
      case (Inl err)
      with Suc.prems f u le show ?thesis by (simp add: paginateLoop_fetch_error)
    next
      case (Inr r)
      with f have f': "fetch e self u w = (Inr r, w1, t)" by simp
      have len: "Suc (length (rs @ [r])) = Suc page" using Suc.prems(2) by simp
      have bound: "real (length (rs @ [r])) \<le> c" using pc Suc.prems(2) by auto
      show ?thesis
      proof (cases "ok r")
        case False
        from Suc.prems(1) have "rs' = rs @ [r]"
          by (simp add: u paginateLoop_not_ok [OF le f' False])
        then show ?thesis using bound by (simp add: le_max_iff_disj)
      next
        case True
        show ?thesis
        proof (cases "linkUpNext e opts u r")
          case (Inr uri')
          from Suc.prems(1) have
            "paginateLoop fuel e self opts (Suc page) uri' (rs @ [r]) w1 (tr @ pauseEffects opts page @ t)
               = Some (Inr rs', w', tr')"
            by (simp add: u paginateLoop_next [OF le f' True Inr])
          from Suc.IH [OF this len] bound have "real (length rs') \<le> c"
            by (simp add: max_def split: if_splits)
          then show ?thesis by (simp add: le_max_iff_disj)
        next
          case (Inl err)
          show ?thesis
          proof (cases "throwOnInvalidHeaderLink opts")
            case True
            with Suc.prems(1) show ?thesis
              by (simp add: u paginateLoop_throw [OF le f' \<open>ok r\<close> Inl True])
          next
            case False
            from Suc.prems(1) have "rs' = rs @ [r]"
              by (simp add: u paginateLoop_swallow [OF le f' \<open>ok r\<close> Inl False])
            then show ?thesis using bound by (simp add: le_max_iff_disj)
          qed
        qed
      qed
    qed
  qed
qed
lemma paginateLoop_terminates:
  assumes c: "count opts = Fin c"
  shows "c < real (page + fuel) \<Longrightarrow> paginateLoop fuel e self opts page uri rs w tr \<noteq> None"
proof (induction fuel arbitrary: page uri rs w tr)
  case 0
  then have "\<not> le_number (real page) (count opts)" using c by simp
  then show ?case by (simp add: paginateLoop_count_reached)
next
  case (Suc fuel)
  have next_page: "paginateLoop fuel e self opts (Suc page) uri' rs' w' tr' \<noteq> None" for uri' rs' w' tr'
    using Suc.prems by (intro Suc.IH) simp
  show ?case
  proof (cases "\<exists>u. uri = URL u \<and> le_number (real page) (count opts)")
    case False
    then have "paginateLoop (Suc fuel) e self opts page uri rs w tr = Some (Inr rs, w, tr)"
      by (cases "\<forall>u. uri \<noteq> URL u") (auto simp: paginateLoop_no_uri paginateLoop_count_reached)
    then show ?thesis by simp
  next
    case True
    then obtain u where u: "uri = URL u" and le: "le_number (real page) (count opts)" by blast
    obtain res w1 t where f: "fetch e self u w = (res, w1, t)" by (metis prod.collapse)
    show ?thesis
    proof (cases res)
      case (Inl err)
      with f u le show ?thesis by (simp add: paginateLoop_fetch_error)
    next
      case (Inr r)
      with f have f': "fetch e self u w = (Inr r, w1, t)" by simp
      show ?thesis
      proof (cases "ok r")
        case False
        then show ?thesis by (simp add: u paginateLoop_not_ok [OF le f'])
      next
        case True
        show ?thesis
        proof (cases "linkUpNext e opts u r")
          case (Inr uri')
          then show ?thesis by (simp add: u paginateLoop_next [OF le f' True] next_page)
        next
          case (Inl err)
          then show ?thesis
            by (cases "throwOnInvalidHeaderLink opts")
               (simp_all add: u paginateLoop_throw [OF le f' True] paginateLoop_swallow [OF le f' True])
        qed
      qed
    qed
  qed
qed

lemma linkUpNext_Some:
  "linkUpNextPage opts = None \<Longrightarrow> nextLink e u r = Some u' \<Longrightarrow> linkUpNext e opts u r = Inr (URL u')"
  by (auto simp: linkUpNext_def nextLink_def split: sum.splits list.splits)

lemma linkUpNext_None:
  "linkUpNextPage opts = None \<Longrightarrow> nextLink e u r = None \<Longrightarrow> \<exists>err. linkUpNext e opts u r = Inl err"
  by (auto simp: linkUpNext_def nextLink_def split: sum.splits list.splits)

lemma pauseEffects_first [simp]: "pauseEffects opts (Suc 0) = []"
  by (simp add: pauseEffects_def)

lemma pauseEffects_none [simp]: "pause opts = Fin 0 \<Longrightarrow> pauseEffects opts page = []"
  by (simp add: pauseEffects_def)

lemma spread_throwOff:
  "spreadPaginate paginateDefault [(''throwOnInvalidHeaderLink'', Boolean False)]
     = paginateDefault\<lparr>throwOnInvalidHeaderLink := False\<rparr>"
  by (simp add: spreadPaginate_def paginateDefault_def)

lemma spread_count2:
  "spreadPaginate paginateDefault [(''count'', Number (Fin 2))] = paginateDefault\<lparr>count := Fin 2\<rparr>"
  by (simp add: spreadPaginate_def paginateDefault_def)

lemma check_throwOff: "checkPaginateOptions [(''throwOnInvalidHeaderLink'', Boolean False)] prefix = Inr ()"
  by (simp add: checkPaginateOptions_def get_def)

lemma check_count2: "checkPaginateOptions [(''count'', Number (Fin 2))] prefix = Inr ()"
  by (simp add: checkPaginateOptions_def get_def isSafeInteger_def MAX_SAFE_INTEGER_def)

section \<open>The constructor, step by step\<close>

lemma set_condition_Function:
  "set_condition (Function f) entropy ro =
     (case f (probeArgs entropy) of
        Inl err \<Rightarrow> (Inl err, [probeArgs entropy])
      | Inr (Boolean b) \<Rightarrow> (Inr (ro\<lparr>condition := Some f\<rparr>), [probeArgs entropy])
      | Inr _ \<Rightarrow> (Inl (TypeError ''Argument `options.retry.condition` must be return type of boolean!''),
                  [probeArgs entropy]))"
  unfolding set_condition_def by simp

lemma condition_set_delayMaximum: "set_delayMaximum v ro = Inr ro' \<Longrightarrow> condition ro' = condition ro"
  by (auto simp: set_delayMaximum_def split: jsval.splits number.splits if_splits)
lemma condition_set_delayMinimum: "set_delayMinimum v ro = Inr ro' \<Longrightarrow> condition ro' = condition ro"
  by (auto simp: set_delayMinimum_def split: jsval.splits number.splits if_splits)
lemma condition_set_jitter: "set_jitter v ro = Inr ro' \<Longrightarrow> condition ro' = condition ro"
  by (auto simp: set_jitter_def split: jsval.splits number.splits if_splits)

lemma configureRetry_after_condition:
  assumes "set_attempts (resolve_attempts r) retryDefault = Inr ro1"
    and "set_backoffMultiplier (resolve_backoffMultiplier r) ro1 = Inr ro2"
    and "set_condition (get r ''condition'') entropy ro2 = (Inr ro3, calls)"
  shows "snd (configureRetry r entropy) = calls"
    and "fst (configureRetry r entropy) = Inr ro \<Longrightarrow> condition ro = condition ro3"
  using assms
  by (auto simp: configureRetry_def split: sum.splits
      dest!: condition_set_delayMaximum condition_set_delayMinimum condition_set_jitter)

lemma configureRetry_probe:
  assumes c: "get r ''condition'' = Function f"
  shows "snd (configureRetry r entropy) = [] \<or> snd (configureRetry r entropy) = [probeArgs entropy]"
    and "fst (configureRetry r entropy) = Inr ro \<Longrightarrow>
           snd (configureRetry r entropy) = [probeArgs entropy]
           \<and> (\<exists>b. f (probeArgs entropy) = Inr (Boolean b)) \<and> condition ro = Some f"
    and "snd (configureRetry r entropy) = [probeArgs entropy] \<Longrightarrow> f (probeArgs entropy) = Inl err
           \<Longrightarrow> fst (configureRetry r entropy) = Inl err"
    and "snd (configureRetry r entropy) = [probeArgs entropy] \<Longrightarrow> f (probeArgs entropy) = Inr v
           \<Longrightarrow> \<forall>b. v \<noteq> Boolean b
           \<Longrightarrow> fst (configureRetry r entropy)
               = Inl (TypeError ''Argument `options.retry.condition` must be return type of boolean!'')"
proof -
  show "snd (configureRetry r entropy) = [] \<or> snd (configureRetry r entropy) = [probeArgs entropy]"
  proof (cases "set_attempts (resolve_attempts r) retryDefault")
    case (Inl err) then show ?thesis by (simp add: configureRetry_def)
  next
    case a: (Inr ro1)
    show ?thesis
    proof (cases "set_backoffMultiplier (resolve_backoffMultiplier r) ro1")
      case (Inl err) with a show ?thesis by (simp add: configureRetry_def)
    next
      case b: (Inr ro2)
      show ?thesis
      proof (cases "set_condition (get r ''condition'') entropy ro2")
        case (Pair res calls)
        then have calls: "calls = [probeArgs entropy]"
          by (auto simp: c set_condition_Function split: sum.splits jsval.splits)
        show ?thesis
        proof (cases res)
          case (Inl err)
          with a b Pair calls show ?thesis by (simp add: configureRetry_def)
        next
          case (Inr ro3)
          with configureRetry_after_condition(1) [OF a b] Pair calls show ?thesis by simp
        qed
      qed
    qed
  qed
next
  show "snd (configureRetry r entropy) = [probeArgs entropy]
           \<and> (\<exists>b. f (probeArgs entropy) = Inr (Boolean b)) \<and> condition ro = Some f"
    if ok: "fst (configureRetry r entropy) = Inr ro"
  proof (cases "set_attempts (resolve_attempts r) retryDefault")
    case (Inl err) with ok show ?thesis by (simp add: configureRetry_def)
  next
    case a: (Inr ro1)
    show ?thesis
    proof (cases "set_backoffMultiplier (resolve_backoffMultiplier r) ro1")
      case (Inl err) with a ok show ?thesis by (simp add: configureRetry_def)
    next
      case b: (Inr ro2)
      show ?thesis
      proof (cases "set_condition (get r ''condition'') entropy ro2")
        case (Pair res calls)
        show ?thesis
        proof (cases res)
          case (Inl err)
          with a b Pair ok show ?thesis by (simp add: configureRetry_def)
        next
          case (Inr ro3)
          with Pair have sc: "set_condition (get r ''condition'') entropy ro2 = (Inr ro3, calls)" by simp
          then have "calls = [probeArgs entropy] \<and> (\<exists>b. f (probeArgs entropy) = Inr (Boolean b))
              \<and> condition ro3 = Some f"
            by (auto simp: c set_condition_Function split: sum.splits jsval.splits)
          with configureRetry_after_condition [OF a b sc] ok show ?thesis by simp
        qed
      qed
    qed
  qed
next
  have probed: "fst (configureRetry r entropy) = fst (set_condition (Function f) entropy ro2)"
    if "snd (configureRetry r entropy) = [probeArgs entropy]"
      and "\<forall>b. f (probeArgs entropy) \<noteq> Inr (Boolean b)"
      and a: "set_attempts (resolve_attempts r) retryDefault = Inr ro1"
      and b: "set_backoffMultiplier (resolve_backoffMultiplier r) ro1 = Inr ro2" for ro1 ro2
    using that c
    by (auto simp: configureRetry_def set_condition_Function split: sum.splits jsval.splits)
  have reached: "\<exists>ro1 ro2. set_attempts (resolve_attempts r) retryDefault = Inr ro1
      \<and> set_backoffMultiplier (resolve_backoffMultiplier r) ro1 = Inr ro2"
    if "snd (configureRetry r entropy) = [probeArgs entropy]"
    using that by (auto simp: configureRetry_def split: sum.splits)
  show "fst (configureRetry r entropy) = Inl err"
    if "snd (configureRetry r entropy) = [probeArgs entropy]" "f (probeArgs entropy) = Inl err"
    using reached [OF that(1)] probed [OF that(1)] that(2)
    by (auto simp: set_condition_Function)
  show "fst (configureRetry r entropy)
               = Inl (TypeError ''Argument `options.retry.condition` must be return type of boolean!'')"
    if "snd (configureRetry r entropy) = [probeArgs entropy]" "f (probeArgs entropy) = Inr v"
      "\<forall>b. v \<noteq> Boolean b"
    using reached [OF that(1)] probed [OF that(1)] that(2,3)
    by (cases v) (auto simp: set_condition_Function)
qed


lemma newExFetch_shape:
  assumes r: "retry options = Some obj"
  shows "(\<exists>err. newExFetch options entropy = (Inl err, []))
       \<or> (snd (newExFetch options entropy) = snd (configureRetry obj entropy)
           \<and> (case fst (configureRetry obj entropy) of
                 Inl err \<Rightarrow> fst (newExFetch options entropy) = Inl err
               | Inr ro \<Rightarrow> (\<forall>self. fst (newExFetch options entropy) = Inr self \<longrightarrow> priv_retry self = ro)))"
proof (cases "check_event (event options)")
  case (Inl err) then show ?thesis by (simp add: newExFetch_def)
next
  case ev: (Inr ev)
  show ?thesis
  proof (cases "checkPaginateOptions (case paginate options of None \<Rightarrow> [] | Some obj \<Rightarrow> obj) ''options.paginate''")
    case (Inl err) with ev show ?thesis by (simp add: newExFetch_def)
  next
    case pg: (Inr u)
    show ?thesis
    proof (cases "configureRetry obj entropy")
      case (Pair res calls)
      show ?thesis
      proof (cases res)
        case (Inl err)
        with ev pg Pair r show ?thesis by (simp add: newExFetch_def)
      next
        case (Inr ro)
        with ev pg Pair r show ?thesis
          by (cases "check_timeout (timeout options)") (auto simp: newExFetch_def)
      qed
    qed
  qed
qed

section \<open>Bounds and examples\<close>


lemma fetch_three_failures_then_success:
  "fetch (stubEnv (\<lambda>w u. plain (if w < 3 then 500 else 200) [])) defaultInstance ''https://example.com/'' 0
     = (Inr (plain 200 []), 4,
        [Sent ''https://example.com/'', Waited (Fin 8000), Sent ''https://example.com/'',
         Waited (Fin 8000), Sent ''https://example.com/'', Waited (Fin 8000),
         Sent ''https://example.com/''])"
  by (simp add: run_defs)

lemma Math_max_floor: "Math_max 1000 d = NaN \<or> le_number 1000 (Math_max 1000 d)"
  by (cases d) simp_all

lemma delayTimeOf_floor:
  "delayTimeOf e ro w r = NaN \<or> le_number 1000 (delayTimeOf e ro w r)"
  unfolding delayTimeOf_def by (rule Math_max_floor)

lemma backoff_without_jitter:
  "exponentialBackoffWithJitter k base cap 0 multiplier u = min cap (base * multiplier ^ k)"
  by (simp add: exponentialBackoffWithJitter_def)

lemma backoff_monotone:
  assumes "0 \<le> base" "1 \<le> multiplier" "j \<le> k"
  shows "exponentialBackoffWithJitter j base cap 0 multiplier u
         \<le> exponentialBackoffWithJitter k base cap 0 multiplier u"
proof -
  have "multiplier ^ j \<le> multiplier ^ k" using assms by (simp add: power_increasing)
  then have "base * multiplier ^ j \<le> base * multiplier ^ k"
    using assms(1) by (simp add: mult_left_mono)
  then show ?thesis by (simp add: backoff_without_jitter min_def)
qed

lemma backoff_le_cap:
  assumes "0 \<le> jit" "jit \<le> 1" "0 \<le> u" "u \<le> 1" "0 \<le> base" "0 \<le> multiplier" "0 \<le> cap"
  shows "exponentialBackoffWithJitter k base cap jit multiplier u \<le> cap"
proof -
  define x where "x = min cap (base * multiplier ^ k)"
  have x: "0 \<le> x" "x \<le> cap" using assms by (simp_all add: x_def)
  have "u * x \<le> x" using assms x by (simp add: mult_left_le_one_le)
  then have "jit * (u * x) \<le> jit * x" using assms by (simp add: mult_left_mono)
  then have "(1 - jit) * x + jit * (u * x) \<le> (1 - jit) * x + jit * x" by simp
  also have "\<dots> = x" by (simp add: algebra_simps)
  finally show ?thesis using x by (simp add: exponentialBackoffWithJitter_def x_def [symmetric] Let_def)
qed

lemma set_delayMinimum_below:
  "set_delayMinimum (Number (Fin x)) ro = Inr ro' \<Longrightarrow> delayMinimum ro' < delayMaximum ro'"
  by (auto simp: set_delayMinimum_def split: if_splits)

lemma readRetryHeaders_seconds:
  "readRetryHeaders (stubEnv server) w (plain 503 [(''Retry-After'', ''120'')])
     [''Retry-After'', ''x-ratelimit-reset''] None = Some (Fin 120000)"
  by (simp add: run_defs)

lemma readRetryHeaders_date:
  "readRetryHeaders (stubEnv server) w
     (plain 503 [(''x-ratelimit-reset'', ''Wed, 21 Oct 2015 07:28:05 GMT'')])
     [''Retry-After'', ''x-ratelimit-reset''] None = Some (Fin 5000)"
  by (simp add: run_defs)

lemma readRetryHeaders_first_wins:
  "readRetryHeaders (stubEnv server) w
     (plain 503 [(''x-ratelimit-reset'', ''Wed, 21 Oct 2015 07:28:05 GMT''), (''Retry-After'', ''120'')])
     [''Retry-After'', ''x-ratelimit-reset''] None = Some (Fin 120000)"
  by (simp add: run_defs)

lemma newExFetch_no_options:
  "newExFetch \<lparr>event = Undefined, paginate = None, retry = None, timeout = Undefined\<rparr> entropy
     = (Inr defaultInstance, [])"
  by (simp add: new_defs defaultInstance_def)

section \<open>Further steps\<close>



lemma configureRetry_reached:
  assumes a: "set_attempts (resolve_attempts r) retryDefault = Inr ro1"
    and b: "set_backoffMultiplier (resolve_backoffMultiplier r) ro1 = Inr ro2"
    and c: "get r ''condition'' = Function f"
  shows "snd (configureRetry r entropy) = [probeArgs entropy]"
proof (cases "set_condition (get r ''condition'') entropy ro2")
  case (Pair res calls)
  then have calls: "calls = [probeArgs entropy]"
    by (auto simp: c set_condition_Function split: sum.splits jsval.splits)
  show ?thesis
  proof (cases res)
    case (Inl err)
    with a b Pair calls show ?thesis by (simp add: configureRetry_def)
  next
    case (Inr ro3)
    with configureRetry_after_condition(1) [OF a b] Pair calls show ?thesis by simp
  qed
qed

lemma newExFetch_reaches:
  assumes r: "retry options = Some obj" and c: "get obj ''condition'' = Function f"
    and reach: "reachesCondition options"
  shows "snd (newExFetch options entropy) = [probeArgs entropy]"
    and "fst (configureRetry obj entropy) = Inl err \<Longrightarrow> fst (newExFetch options entropy) = Inl err"
proof -
  from reach r obtain ev u ro1 ro2 where ev: "check_event (event options) = Inr ev"
    and pg: "checkPaginateOptions (case paginate options of None \<Rightarrow> [] | Some obj \<Rightarrow> obj) ''options.paginate'' = Inr u"
    and a: "set_attempts (resolve_attempts obj) retryDefault = Inr ro1"
    and b: "set_backoffMultiplier (resolve_backoffMultiplier obj) ro1 = Inr ro2"
    by (auto simp: reachesCondition_def split: sum.splits)
  have calls: "snd (configureRetry obj entropy) = [probeArgs entropy]"
    by (rule configureRetry_reached [OF a b c])
  obtain res cs where cr: "configureRetry obj entropy = (res, cs)" by (cases "configureRetry obj entropy")
  show "snd (newExFetch options entropy) = [probeArgs entropy]"
    using ev pg r cr calls
    by (cases res; cases "check_timeout (timeout options)") (simp_all add: newExFetch_def)
  show "fst (newExFetch options entropy) = Inl err" if "fst (configureRetry obj entropy) = Inl err"
    using ev pg r cr that by (simp add: newExFetch_def)
qed

lemma newExFetch_not_reached:
  assumes r: "retry options = Some obj" and reach: "\<not> reachesCondition options"
  shows "\<exists>err. newExFetch options entropy = (Inl err, [])"
proof (cases "check_event (event options)")
  case (Inl err) then show ?thesis by (simp add: newExFetch_def)
next
  case ev: (Inr ev)
  show ?thesis
  proof (cases "checkPaginateOptions (case paginate options of None \<Rightarrow> [] | Some obj \<Rightarrow> obj) ''options.paginate''")
    case (Inl err) with ev show ?thesis by (simp add: newExFetch_def)
  next
    case pg: (Inr u)
    show ?thesis
    proof (cases "set_attempts (resolve_attempts obj) retryDefault")
      case (Inl err) with ev pg r show ?thesis by (simp add: newExFetch_def configureRetry_def)
    next
      case a: (Inr ro1)
      show ?thesis
      proof (cases "set_backoffMultiplier (resolve_backoffMultiplier obj) ro1")
        case (Inl err) with ev pg r a show ?thesis by (simp add: newExFetch_def configureRetry_def)
      next
        case (Inr ro2)
        with ev pg a r reach show ?thesis by (simp add: reachesCondition_def)
      qed
    qed
  qed
qed

lemma linkUpNext_default_URL:
  "linkUpNextPage opts = None \<Longrightarrow> linkUpNext e opts u r = Inr v \<Longrightarrow> \<exists>u'. v = URL u'"
  by (auto simp: linkUpNext_def split: sum.splits list.splits option.splits)

lemma paginateLoop_default_ends:
  assumes t: "throwOnInvalidHeaderLink opts" and n: "linkUpNextPage opts = None"
    and c: "count opts = PosInfinity"
  shows "paginateLoop fuel e self opts page (URL u) rs w tr = Some (Inr rs', w', tr')
         \<Longrightarrow> rs' \<noteq> [] \<and> \<not> ok (last rs')"
proof (induction fuel arbitrary: page u rs w tr)
  case 0
  have "le_number (real page) (count opts)" by (simp add: c)
  with 0 show ?case by (simp add: paginateLoop_no_fuel)
next
  case (Suc fuel)
  have le: "le_number (real page) (count opts)" by (simp add: c)
  obtain res w1 t1 where f: "fetch e self u w = (res, w1, t1)" by (metis prod.collapse)
  show ?case
  proof (cases res)
    case (Inl err)
    with Suc.prems f le show ?thesis by (simp add: paginateLoop_fetch_error)
  next
    case (Inr r)
    with f have f': "fetch e self u w = (Inr r, w1, t1)" by simp
    show ?thesis
    proof (cases "ok r")
      case False
      with Suc.prems have "rs' = rs @ [r]" by (simp add: paginateLoop_not_ok [OF le f'])
      with False show ?thesis by simp
    next
      case True
      show ?thesis
      proof (cases "linkUpNext e opts u r")
        case (Inl err)
        with Suc.prems show ?thesis by (simp add: paginateLoop_throw [OF le f' True _ t])
      next
        case (Inr v)
        then obtain u' where v: "v = URL u'" using linkUpNext_default_URL [OF n] by blast
        from Suc.prems have
          "paginateLoop fuel e self opts (Suc page) (URL u') (rs @ [r]) w1 (tr @ pauseEffects opts page @ t1)
             = Some (Inr rs', w', tr')"
          by (simp add: paginateLoop_next [OF le f' True Inr] v)
        then show ?thesis by (rule Suc.IH)
      qed
    qed
  qed
qed

lemma fetchPaginate_default_ends:
  assumes "priv_paginate self = paginateDefault"
    and "fetchPaginate fuel e self u [] w = Some (Inr rs, w', tr)"
  shows "rs \<noteq> [] \<and> \<not> ok (last rs)"
proof -
  have o: "spreadPaginate paginateDefault [] = paginateDefault"
    by (simp add: spreadPaginate_def paginateDefault_def)
  from assms have "paginateLoop fuel e self paginateDefault 1 (URL u) [] w [] = Some (Inr rs, w', tr)"
    by (simp add: fetchPaginate_def checkPaginateOptions_def get_def o)
  then show ?thesis
    by (rule paginateLoop_default_ends [rotated 3]) (simp_all add: paginateDefault_def)
qed

lemma fetchPaginate_chain:
  assumes d: "priv_paginate self = paginateDefault"
  shows "(fetch e self u1 w0 = (Inr r1, w1, t1) \<and> ok r1 \<and> nextLink e u1 r1 = Some u2
          \<and> fetch e self u2 w1 = (Inr r2, w2, t2) \<and> ok r2 \<and> nextLink e u2 r2 = Some u3
          \<and> fetch e self u3 w2 = (Inr r3, w3, t3) \<and> ok r3 \<and> nextLink e u3 r3 = None \<longrightarrow>
          fetchPaginate (Suc (Suc (Suc fuel))) e self u1 [(''throwOnInvalidHeaderLink'', Boolean False)] w0
            = Some (Inr [r1, r2, r3], w3, t1 @ t2 @ t3))
       \<and> (fetch e self u1 w0 = (Inr r1, w1, t1) \<and> ok r1 \<and> nextLink e u1 r1 = Some u2
          \<and> fetch e self u2 w1 = (Inr r2, w2, t2) \<and> ok r2 \<and> nextLink e u2 r2 = Some u3 \<longrightarrow>
          fetchPaginate (Suc (Suc fuel)) e self u1 [(''count'', Number (Fin 2))] w0
            = Some (Inr [r1, r2], w2, t1 @ t2))
       \<and> (count (spreadPaginate (priv_paginate self) override) = Fin (real n) \<longrightarrow>
            (\<exists>res. fetchPaginate n e self u1 override w0 = Some res)
          \<and> (fetchPaginate fuel e self u1 override w0 = Some (Inr rs, w', tr) \<longrightarrow> length rs \<le> n))"
proof (intro conjI impI)
  let ?o = "paginateDefault\<lparr>throwOnInvalidHeaderLink := False\<rparr>"
  assume a: "fetch e self u1 w0 = (Inr r1, w1, t1) \<and> ok r1 \<and> nextLink e u1 r1 = Some u2
          \<and> fetch e self u2 w1 = (Inr r2, w2, t2) \<and> ok r2 \<and> nextLink e u2 r2 = Some u3
          \<and> fetch e self u3 w2 = (Inr r3, w3, t3) \<and> ok r3 \<and> nextLink e u3 r3 = None"
  have o: "linkUpNextPage ?o = None" "pause ?o = Fin 0" "\<not> throwOnInvalidHeaderLink ?o"
    and le: "le_number (real k) (count ?o)" for k
    by (simp_all add: paginateDefault_def)
  from a have n1: "linkUpNext e ?o u1 r1 = Inr (URL u2)" and n2: "linkUpNext e ?o u2 r2 = Inr (URL u3)"
    by (simp_all add: linkUpNext_Some o)
  from a obtain err where n3: "linkUpNext e ?o u3 r3 = Inl err"
    using linkUpNext_None [OF o(1), of e u3 r3] by blast
  from a have f1: "fetch e self u1 w0 = (Inr r1, w1, t1)" and f2: "fetch e self u2 w1 = (Inr r2, w2, t2)"
    and f3: "fetch e self u3 w2 = (Inr r3, w3, t3)" and k: "ok r1" "ok r2" "ok r3" by simp_all
  show "fetchPaginate (Suc (Suc (Suc fuel))) e self u1 [(''throwOnInvalidHeaderLink'', Boolean False)] w0
            = Some (Inr [r1, r2, r3], w3, t1 @ t2 @ t3)"
    by (simp add: fetchPaginate_def d check_throwOff spread_throwOff
        paginateLoop_next [OF le f1 k(1) n1] paginateLoop_next [OF le f2 k(2) n2]
        paginateLoop_swallow [OF le f3 k(3) n3 o(3)] o(2))
next
  let ?o = "paginateDefault\<lparr>count := Fin 2\<rparr>"
  assume a: "fetch e self u1 w0 = (Inr r1, w1, t1) \<and> ok r1 \<and> nextLink e u1 r1 = Some u2
          \<and> fetch e self u2 w1 = (Inr r2, w2, t2) \<and> ok r2 \<and> nextLink e u2 r2 = Some u3"
  have o: "linkUpNextPage ?o = None" "pause ?o = Fin 0"
    and le1: "le_number (real (Suc 0)) (count ?o)" and le2: "le_number (real (Suc (Suc 0))) (count ?o)"
    and le3: "\<not> le_number (real (Suc (Suc (Suc 0)))) (count ?o)"
    by (simp_all add: paginateDefault_def)
  from a have n1: "linkUpNext e ?o u1 r1 = Inr (URL u2)" and n2: "linkUpNext e ?o u2 r2 = Inr (URL u3)"
    by (simp_all add: linkUpNext_Some o)
  from a have f1: "fetch e self u1 w0 = (Inr r1, w1, t1)" and f2: "fetch e self u2 w1 = (Inr r2, w2, t2)"
    and k: "ok r1" "ok r2" by simp_all
  show "fetchPaginate (Suc (Suc fuel)) e self u1 [(''count'', Number (Fin 2))] w0
            = Some (Inr [r1, r2], w2, t1 @ t2)"
    by (simp add: fetchPaginate_def d check_count2 spread_count2
        paginateLoop_next [OF le1 f1 k(1) n1] paginateLoop_next [OF le2 f2 k(2) n2]
        paginateLoop_count_reached [OF le3] o(2))
next
  assume c: "count (spreadPaginate (priv_paginate self) override) = Fin (real n)"
  show "\<exists>res. fetchPaginate n e self u1 override w0 = Some res"
    using paginateLoop_terminates [OF c, of 1 n e self "URL u1" "[]" w0 "[]"]
    by (auto simp: fetchPaginate_def split: sum.splits)
next
  assume c: "count (spreadPaginate (priv_paginate self) override) = Fin (real n)"
    and a: "fetchPaginate fuel e self u1 override w0 = Some (Inr rs, w', tr)"
  then have "paginateLoop fuel e self (spreadPaginate (priv_paginate self) override) 1 (URL u1) [] w0 []
      = Some (Inr rs, w', tr)"
    by (auto simp: fetchPaginate_def split: sum.splits)
  from paginateLoop_length [OF c this] have "real (length rs) \<le> max (real n) (real (length ([] :: response list)))"
    by simp
  then show "length rs \<le> n" by simp
qed


lemma fetchPaginate_chain_example:
  "priv_paginate defaultInstance = paginateDefault
   \<and> fetch (stubEnv threePages) defaultInstance ''https://example.com/1'' 0
       = (Inr (threePages 0 ''https://example.com/1''), 1, [Sent ''https://example.com/1''])
   \<and> ok (threePages 0 ''https://example.com/1'')
   \<and> nextLink (stubEnv threePages) ''https://example.com/1'' (threePages 0 ''https://example.com/1'')
       = Some ''https://example.com/2''
   \<and> fetch (stubEnv threePages) defaultInstance ''https://example.com/2'' 1
       = (Inr (threePages 1 ''https://example.com/2''), 2, [Sent ''https://example.com/2''])
   \<and> ok (threePages 1 ''https://example.com/2'')
   \<and> nextLink (stubEnv threePages) ''https://example.com/2'' (threePages 1 ''https://example.com/2'')
       = Some ''https://example.com/3''
   \<and> fetch (stubEnv threePages) defaultInstance ''https://example.com/3'' 2
       = (Inr (threePages 2 ''https://example.com/3''), 3, [Sent ''https://example.com/3''])
   \<and> ok (threePages 2 ''https://example.com/3'')
   \<and> nextLink (stubEnv threePages) ''https://example.com/3'' (threePages 2 ''https://example.com/3'') = None
   \<and> fetchPaginate (Suc (Suc (Suc 0))) (stubEnv threePages) defaultInstance ''https://example.com/1''
         [(''throwOnInvalidHeaderLink'', Boolean False)] 0
       = Some (Inr [threePages 0 ''https://example.com/1'', threePages 1 ''https://example.com/2'',
                    threePages 2 ''https://example.com/3''], 3,
               [Sent ''https://example.com/1'', Sent ''https://example.com/2'',
                Sent ''https://example.com/3''])
   \<and> fetchPaginate (Suc (Suc 0)) (stubEnv threePages) defaultInstance ''https://example.com/1''
         [(''count'', Number (Fin 2))] 0
       = Some (Inr [threePages 0 ''https://example.com/1'', threePages 1 ''https://example.com/2''], 2,
               [Sent ''https://example.com/1'', Sent ''https://example.com/2''])
   \<and> count (spreadPaginate (priv_paginate defaultInstance) [(''count'', Number (Fin 2))]) = Fin (real 2)
   \<and> length [threePages 0 ''https://example.com/1'', threePages 1 ''https://example.com/2''] \<le> 2"
proof -
  let ?e = "stubEnv threePages"
  let ?u1 = "''https://example.com/1''" and ?u2 = "''https://example.com/2''"
    and ?u3 = "''https://example.com/3''"
  have d: "priv_paginate defaultInstance = paginateDefault"
    by (simp add: defaultInstance_def)
  have f1: "fetch ?e defaultInstance ?u1 0 = (Inr (threePages 0 ?u1), 1, [Sent ?u1])"
    and f2: "fetch ?e defaultInstance ?u2 1 = (Inr (threePages 1 ?u2), 2, [Sent ?u2])"
    and f3: "fetch ?e defaultInstance ?u3 2 = (Inr (threePages 2 ?u3), 3, [Sent ?u3])"
    by (simp_all add: run_defs threePages_def linked_def)
  have k: "ok (threePages 0 ?u1)" "ok (threePages 1 ?u2)" "ok (threePages 2 ?u3)"
    by (simp_all add: threePages_def linked_def ok_def)
  have n1: "nextLink ?e ?u1 (threePages 0 ?u1) = Some ?u2"
    and n2: "nextLink ?e ?u2 (threePages 1 ?u2) = Some ?u3"
    and n3: "nextLink ?e ?u3 (threePages 2 ?u3) = None"
    by (simp_all add: nextLink_def threePages_def linked_def getByRel_def stubEnv_def)
  have c: "count (spreadPaginate (priv_paginate defaultInstance) [(''count'', Number (Fin 2))]) = Fin (real 2)"
    by (simp add: d spread_count2)
  note chain = fetchPaginate_chain [OF d, where e = ?e and ?u1.0 = ?u1 and ?w0.0 = 0
      and ?r1.0 = "threePages 0 ?u1" and ?w1.0 = 1 and ?t1.0 = "[Sent ?u1]" and ?u2.0 = ?u2
      and ?r2.0 = "threePages 1 ?u2" and ?w2.0 = 2 and ?t2.0 = "[Sent ?u2]" and ?u3.0 = ?u3
      and ?r3.0 = "threePages 2 ?u3" and ?w3.0 = 3 and ?t3.0 = "[Sent ?u3]" and fuel = 0
      and override = "[(''count'', Number (Fin 2))]" and n = 2
      and rs = "[threePages 0 ?u1, threePages 1 ?u2]" and w' = 2 and tr = "[Sent ?u1, Sent ?u2]"]
  have three: "fetchPaginate (Suc (Suc (Suc 0))) ?e defaultInstance ?u1
         [(''throwOnInvalidHeaderLink'', Boolean False)] 0
       = Some (Inr [threePages 0 ?u1, threePages 1 ?u2, threePages 2 ?u3], 3,
               [Sent ?u1, Sent ?u2, Sent ?u3])"
    using chain f1 f2 f3 k n1 n2 n3 by simp
  have two: "fetchPaginate (Suc (Suc 0)) ?e defaultInstance ?u1 [(''count'', Number (Fin 2))] 0
       = Some (Inr [threePages 0 ?u1, threePages 1 ?u2], 2, [Sent ?u1, Sent ?u2])"
    using chain f1 f2 k n1 n2 by simp
  have len: "length [threePages 0 ?u1, threePages 1 ?u2] \<le> 2"
    using chain c two by simp
  show ?thesis
    using d f1 f2 f3 k n1 n2 n3 three two c len by (simp only: simp_thms)
qed

section \<open>The claims\<close>




text \<open>
  Claim C10, as stated, fails: a condition that is supplied is not always invoked.  The
  constructor validates \<^verbatim>\<open>retry.attempts\<close> before it reaches the condition; with
  \<^verbatim>\<open>attempts\<close> = -1 it throws the range error and the condition has not been called.
\<close>

theorem newExFetch_condition_not_called:
  "get [(''attempts'', Number (Fin (- 1))), (''condition'', Function alwaysTrue)] ''condition''
     = Function alwaysTrue
   \<and> newExFetch (retryOnly [(''attempts'', Number (Fin (- 1))), (''condition'', Function alwaysTrue)]) 12345
     = (Inl (RangeError ''Argument `options.retry.attempts` must be a number which is integer, positive, and safe!''),
        [])"
  by (simp add: new_defs)

text \<open>
  Claim C10, amended.  When \<^verbatim>\<open>retry.condition\<close> is a function and the options validated
  before it (\<^verbatim>\<open>event\<close>, \<^verbatim>\<open>paginate\<close>, \<^verbatim>\<open>retry.attempts\<close>, \<^verbatim>\<open>retry.backoffMultiplier\<close>) are
  accepted, the constructor calls it exactly once, on a random status code from 100 up to
  (not including) 600 together with \<^verbatim>\<open>true\<close>; an exception of the condition leaves the
  constructor as it is, and a value that is no boolean makes the constructor throw its
  \<^verbatim>\<open>TypeError\<close>.  When one of the earlier options is rejected the constructor throws and
  the condition is not called.  Every construction that succeeds has made exactly the one
  call, so the side effects of the condition have run once before the instance can send a
  request.
\<close>

theorem condition_probe:
  assumes r: "retry options = Some obj" and c: "get obj ''condition'' = Function f"
  shows "100 \<le> randomInt 100 600 entropy \<and> randomInt 100 600 entropy < 600
       \<and> probeArgs entropy = [ArgNumber (real (randomInt 100 600 entropy)), ArgBoolean True]
       \<and> (reachesCondition options \<longrightarrow>
            snd (newExFetch options entropy) = [probeArgs entropy]
            \<and> (f (probeArgs entropy) = Inl err \<longrightarrow> fst (newExFetch options entropy) = Inl err)
            \<and> (f (probeArgs entropy) = Inr v \<longrightarrow> (\<forall>b. v \<noteq> Boolean b) \<longrightarrow>
                 fst (newExFetch options entropy)
                   = Inl (TypeError ''Argument `options.retry.condition` must be return type of boolean!'')))
       \<and> (\<not> reachesCondition options \<longrightarrow>
            snd (newExFetch options entropy) = [] \<and> (\<exists>e. fst (newExFetch options entropy) = Inl e))
       \<and> (fst (newExFetch options entropy) = Inr self \<longrightarrow>
            snd (newExFetch options entropy) = [probeArgs entropy]
            \<and> (\<exists>b. f (probeArgs entropy) = Inr (Boolean b))
            \<and> condition (priv_retry self) = Some f)"
proof -
  have range: "100 \<le> randomInt 100 600 entropy \<and> randomInt 100 600 entropy < 600"
    by (simp add: randomInt_def)
  have args: "probeArgs entropy = [ArgNumber (real (randomInt 100 600 entropy)), ArgBoolean True]"
    by (simp add: probeArgs_def)
  note probe = configureRetry_probe [OF c, of entropy]
  have reached: "snd (newExFetch options entropy) = [probeArgs entropy]
            \<and> (f (probeArgs entropy) = Inl err \<longrightarrow> fst (newExFetch options entropy) = Inl err)
            \<and> (f (probeArgs entropy) = Inr v \<longrightarrow> (\<forall>b. v \<noteq> Boolean b) \<longrightarrow>
                 fst (newExFetch options entropy)
                   = Inl (TypeError ''Argument `options.retry.condition` must be return type of boolean!''))"
    if reach: "reachesCondition options"
  proof -
    obtain ev u ro1 ro2 where a: "set_attempts (resolve_attempts obj) retryDefault = Inr ro1"
      and b: "set_backoffMultiplier (resolve_backoffMultiplier obj) ro1 = Inr ro2"
      using reach r by (auto simp: reachesCondition_def split: sum.splits)
    have cs: "snd (configureRetry obj entropy) = [probeArgs entropy]"
      by (rule configureRetry_reached [OF a b c])
    show ?thesis
      using newExFetch_reaches [OF r c reach, of entropy] probe(3) [OF cs] probe(4) [OF cs]
      by blast
  qed
  have missed: "snd (newExFetch options entropy) = [] \<and> (\<exists>e. fst (newExFetch options entropy) = Inl e)"
    if "\<not> reachesCondition options"
    using newExFetch_not_reached [OF r that, of entropy] by auto
  have success: "snd (newExFetch options entropy) = [probeArgs entropy]
            \<and> (\<exists>b. f (probeArgs entropy) = Inr (Boolean b))
            \<and> condition (priv_retry self) = Some f"
    if "fst (newExFetch options entropy) = Inr self"
    using newExFetch_shape [OF r, of entropy] that probe(2) by (auto split: sum.splits)
  show ?thesis
    using range args reached missed success by blast
qed

theorem condition_probe_witness:
  "retry (retryOnly [(''condition'', Function (\<lambda>args. Inr (Boolean True)))])
     = Some [(''condition'', Function (\<lambda>args. Inr (Boolean True)))]
   \<and> get [(''condition'', Function (\<lambda>args. Inr (Boolean True)))] ''condition''
     = Function (\<lambda>args. Inr (Boolean True))
   \<and> reachesCondition (retryOnly [(''condition'', Function (\<lambda>args. Inr (Boolean True)))])
   \<and> probeArgs 12345 = [ArgNumber 445, ArgBoolean True]
   \<and> snd (newExFetch (retryOnly [(''condition'', Function (\<lambda>args. Inr (Boolean True)))]) 12345)
     = [[ArgNumber 445, ArgBoolean True]]
   \<and> (\<exists>self. fst (newExFetch (retryOnly [(''condition'', Function (\<lambda>args. Inr (Boolean True)))]) 12345)
     = Inr self)
   \<and> reachesCondition (retryOnly [(''condition'', Function (\<lambda>args. Inl (Failure ''boom'')))])
   \<and> snd (newExFetch (retryOnly [(''condition'', Function (\<lambda>args. Inl (Failure ''boom'')))]) 12345)
     = [probeArgs 12345]
   \<and> fst (newExFetch (retryOnly [(''condition'', Function (\<lambda>args. Inl (Failure ''boom'')))]) 12345)
     = Inl (Failure ''boom'')
   \<and> reachesCondition (retryOnly [(''condition'', Function (\<lambda>args. Inr (Number (Fin 1))))])
   \<and> snd (newExFetch (retryOnly [(''condition'', Function (\<lambda>args. Inr (Number (Fin 1))))]) 12345)
     = [probeArgs 12345]
   \<and> fst (newExFetch (retryOnly [(''condition'', Function (\<lambda>args. Inr (Number (Fin 1))))]) 12345)
     = Inl (TypeError ''Argument `options.retry.condition` must be return type of boolean!'')
   \<and> \<not> reachesCondition (retryOnly [(''condition'', Function (\<lambda>args. Inr (Boolean True))),
                                     (''backoffMultiplier'', Number (Fin 0))])
   \<and> snd (newExFetch (retryOnly [(''condition'', Function (\<lambda>args. Inr (Boolean True))),
                                 (''backoffMultiplier'', Number (Fin 0))]) 12345) = []"
proof -
  let ?yes = "\<lambda>args :: jsarg list. Inr (Boolean True) :: error + jsval"
  let ?boom = "\<lambda>args :: jsarg list. Inl (Failure ''boom'') :: error + jsval"
  let ?one = "\<lambda>args :: jsarg list. Inr (Number (Fin 1)) :: error + jsval"
  let ?late = "[(''condition'', Function ?yes), (''backoffMultiplier'', Number (Fin 0))]"
  have r: "retry (retryOnly obj) = Some obj" for obj
    by (simp add: retryOnly_def)
  have c: "get [(''condition'', Function g)] ''condition'' = Function g" for g
    by (simp add: get_def)
  have c': "get ?late ''condition'' = Function ?yes"
    by (simp add: get_def)
  have reach: "reachesCondition (retryOnly [(''condition'', Function g)])" for g
    by (simp add: reachesCondition_def new_defs)
  have miss: "\<not> reachesCondition (retryOnly ?late)"
    by (simp add: reachesCondition_def new_defs)
  have args: "probeArgs 12345 = [ArgNumber 445, ArgBoolean True]"
    by (simp add: probeArgs_def randomInt_def)
  have built: "\<exists>self. fst (newExFetch (retryOnly [(''condition'', Function ?yes)]) 12345) = Inr self"
    by (simp add: new_defs)
  have once: "snd (newExFetch (retryOnly [(''condition'', Function ?yes)]) 12345)
      = [[ArgNumber 445, ArgBoolean True]]"
    using condition_probe [OF r c [of ?yes], where entropy = 12345] reach [of ?yes] args by simp
  have once_boom: "snd (newExFetch (retryOnly [(''condition'', Function ?boom)]) 12345) = [probeArgs 12345]"
    and thrown: "fst (newExFetch (retryOnly [(''condition'', Function ?boom)]) 12345) = Inl (Failure ''boom'')"
    using condition_probe [OF r c [of ?boom], where entropy = 12345 and err = "Failure ''boom''"]
      reach [of ?boom] by simp_all
  have once_one: "snd (newExFetch (retryOnly [(''condition'', Function ?one)]) 12345) = [probeArgs 12345]"
    and nonbool: "fst (newExFetch (retryOnly [(''condition'', Function ?one)]) 12345)
     = Inl (TypeError ''Argument `options.retry.condition` must be return type of boolean!'')"
    using condition_probe [OF r c [of ?one], where entropy = 12345 and v = "Number (Fin 1)"]
      reach [of ?one] by simp_all
  have never: "snd (newExFetch (retryOnly ?late) 12345) = []"
    using condition_probe [OF r c', where entropy = 12345] miss by blast
  show ?thesis
    using r [of "[(''condition'', Function ?yes)]"] c [of ?yes] reach [of ?yes] args once built
      reach [of ?boom] once_boom thrown reach [of ?one] once_one nonbool miss never
    by (simp only: simp_thms)
qed

text \<open>
  Claim C8.  In \<^verbatim>\<open>fetchPaginate\<close>, a page whose response has a non-success status is
  still appended to the responses, and the pagination stops there: nothing is sent after
  the requests of that page.  In particular, when the first page answers 404, the result
  is that one response and the only requests are those of the first page.
\<close>

theorem paginate_non_success:
  "(fetch e self u w = (Inr r, w', t) \<and> \<not> ok r \<and> le_number (real page) (count opts) \<longrightarrow>
      paginateLoop (Suc fuel) e self opts page (URL u) rs w tr
        = Some (Inr (rs @ [r]), w', tr @ pauseEffects opts page @ t))
   \<and> (fetch e self u w = (Inr r, w', t) \<and> status r = 404
        \<and> checkPaginateOptions override ''optionsOverride'' = Inr ()
        \<and> le_number 1 (count (spreadPaginate (priv_paginate self) override)) \<longrightarrow>
      fetchPaginate (Suc fuel) e self u override w = Some (Inr [r], w', t))"
proof (intro conjI impI)
  assume "fetch e self u w = (Inr r, w', t) \<and> \<not> ok r \<and> le_number (real page) (count opts)"
  then show "paginateLoop (Suc fuel) e self opts page (URL u) rs w tr
        = Some (Inr (rs @ [r]), w', tr @ pauseEffects opts page @ t)"
    by (simp add: paginateLoop_not_ok)
next
  assume a: "fetch e self u w = (Inr r, w', t) \<and> status r = 404
        \<and> checkPaginateOptions override ''optionsOverride'' = Inr ()
        \<and> le_number 1 (count (spreadPaginate (priv_paginate self) override))"
  then have "\<not> ok r" by (simp add: ok_def)
  with a show "fetchPaginate (Suc fuel) e self u override w = Some (Inr [r], w', t)"
    using paginateLoop_not_ok [of 1 "spreadPaginate (priv_paginate self) override" e self u w r w' t fuel "[]" "[]"]
    by (simp add: fetchPaginate_def)
qed

theorem paginate_non_success_witness:
  "fetch (stubEnv (\<lambda>w u. plain 404 [])) defaultInstance ''https://example.com/1'' 0
     = (Inr (plain 404 []), 1, [Sent ''https://example.com/1''])
   \<and> status (plain 404 []) = 404 \<and> \<not> ok (plain 404 [])
   \<and> checkPaginateOptions [] ''optionsOverride'' = Inr ()
   \<and> le_number 1 (count (spreadPaginate (priv_paginate defaultInstance) []))
   \<and> le_number (real 2) (count paginateDefault)
   \<and> fetchPaginate (Suc 0) (stubEnv (\<lambda>w u. plain 404 [])) defaultInstance ''https://example.com/1'' [] 0
     = Some (Inr [plain 404 []], 1, [Sent ''https://example.com/1''])
   \<and> paginateLoop (Suc 0) (stubEnv (\<lambda>w u. plain 404 [])) defaultInstance paginateDefault 2
        (URL ''https://example.com/1'') [linked []] 0 []
     = Some (Inr [linked [], plain 404 []], 1, [Sent ''https://example.com/1''])"
proof -
  have f: "fetch (stubEnv (\<lambda>w u. plain 404 [])) defaultInstance ''https://example.com/1'' 0
     = (Inr (plain 404 []), 1, [Sent ''https://example.com/1''])"
    by (simp add: run_defs)
  have s: "status (plain 404 []) = 404" and n: "\<not> ok (plain 404 [])"
    by (simp_all add: plain_def ok_def)
  have c: "checkPaginateOptions [] ''optionsOverride'' = Inr ()"
    by (simp add: checkPaginateOptions_def get_def)
  have l: "le_number 1 (count (spreadPaginate (priv_paginate defaultInstance) []))"
    by (simp add: spreadPaginate_def defaultInstance_def paginateDefault_def)
  have l2: "le_number (real 2) (count paginateDefault)" "pause paginateDefault = Fin 0"
    by (simp_all add: paginateDefault_def)
  show ?thesis
    using f s n c l l2
      paginate_non_success [of "stubEnv (\<lambda>w u. plain 404 [])" defaultInstance "''https://example.com/1''" 0
        "plain 404 []" 1 "[Sent ''https://example.com/1'']" 2 paginateDefault 0 "[linked []]" "[]" "[]"]
    by simp
qed







text \<open>
  Claim C5 says that with the default options three pages chained by \<^verbatim>\<open>next\<close> come back
  as three responses.  The third page has well-formed link metadata without a \<^verbatim>\<open>next\<close>
  entry; the code indexes the empty result of \<^verbatim>\<open>getByRel("next")\<close> with \<^verbatim>\<open>[0][0]\<close>, the
  \<^verbatim>\<open>TypeError\<close> lands in the \<^verbatim>\<open>catch\<close> clause, and with the default
  \<^verbatim>\<open>throwOnInvalidHeaderLink\<close> the operation throws a \<^verbatim>\<open>SyntaxError\<close> in place of the three
  responses.  With the defaults no result ends in a success page
  (\<open>fetchPaginate_default_ends\<close>).  The rest of the claim holds: with
  \<^verbatim>\<open>throwOnInvalidHeaderLink\<close> false the three responses come back in order, \<^verbatim>\<open>count\<close> = 2
  gives the first two, and a result never has more than \<^verbatim>\<open>count\<close> elements
  (\<open>fetchPaginate_chain\<close>).
\<close>

theorem fetchPaginate_default_three_pages:
  "fetchPaginate 5 (stubEnv threePages) defaultInstance ''https://example.com/1'' [] 0
     = Some (Inl (SyntaxError ''[https://example.com/3] Cannot read properties of undefined''), 3,
             [Sent ''https://example.com/1'', Sent ''https://example.com/2'',
              Sent ''https://example.com/3''])"
  by (simp add: page_defs run_defs eval_nat_numeral)





text \<open>
  Claim C2 says that without a hint and without jitter the delay before the \<open>k\<close>-th
  retry is \<open>min(delayMax, delayMin * backoffMultiplier^k)\<close>, \<open>k\<close> the current attempt count,
  so that the delays grow until the cap.  The loop passes \<^verbatim>\<open>this.#retry.attempts\<close>, the
  configured maximum, as the attempt: every delay of a call is the same.  With the
  defaults and no jitter each of the four waits is 16000 ms, where the calculator gives
  1000, 2000, 4000 and 8000 ms on the attempt counts 0 to 3.
\<close>

theorem fetch_backoff_delays_constant:
  "waits (snd (snd (fetch (stubEnv (\<lambda>w u. plain 500 []))
       (defaultInstance\<lparr>priv_retry := retryDefault\<lparr>jitter := 0\<rparr>\<rparr>) ''https://example.com/'' 0)))
     = [Fin 16000, Fin 16000, Fin 16000, Fin 16000]
   \<and> map (\<lambda>k. Fin (exponentialBackoffWithJitter k 1000 60000 0 2 (1 / 2))) [0, 1, 2, 3]
     = [Fin 1000, Fin 2000, Fin 4000, Fin 8000]"
  by (simp add: run_defs)


text \<open>
  Claim C3 says that a header whose value fails to parse is skipped and the next
  candidate is tried, and that the backoff calculator is used when no header parses.
  \<^verbatim>\<open>Date.parse\<close> does not throw on such a value, it returns \<open>NaN\<close>, which \<^verbatim>\<open>??=\<close>
  stores: with \<^verbatim>\<open>Retry-After: soon\<close> and \<^verbatim>\<open>x-ratelimit-reset: 120\<close> the delay read is \<open>NaN\<close>,
  not 120000 ms, and with \<^verbatim>\<open>Retry-After: soon\<close> alone the delay of the retry is \<open>NaN\<close>, not
  the calculator's.  The rest of the claim holds (\<open>readRetryHeaders_seconds\<close>,
  \<open>readRetryHeaders_date\<close>, \<open>readRetryHeaders_first_wins\<close>).
\<close>

theorem retry_hint_unparsable_kept:
  "dateParse (stubEnv (\<lambda>w u. plain 503 [])) ''soon'' = Inr NaN
   \<and> readRetryHeaders (stubEnv (\<lambda>w u. plain 503 [])) 0
        (plain 503 [(''Retry-After'', ''soon''), (''x-ratelimit-reset'', ''120'')])
        [''Retry-After'', ''x-ratelimit-reset''] None = Some NaN
   \<and> readRetryHeaders (stubEnv (\<lambda>w u. plain 503 [])) 0
        (plain 503 [(''Retry-After'', ''soon'')])
        [''Retry-After'', ''x-ratelimit-reset''] None = Some NaN
   \<and> delayTimeOf (stubEnv (\<lambda>w u. plain 503 [])) retryDefault 0
        (plain 503 [(''Retry-After'', ''soon'')]) = NaN"
  by (simp add: run_defs)


text \<open>
  Claim C7 says that every delay chosen, waited and reported in the retry event, is at
  least 1000 ms whatever the server's hint.  \<^verbatim>\<open>Math.max(1000, delayTime)\<close> is \<open>NaN\<close> when
  the delay read from a header is (\<open>delayTimeOf_floor\<close> is all that holds): with
  \<^verbatim>\<open>Retry-After: soon\<close> every wait and every \<^verbatim>\<open>retryAfter\<close> is \<open>NaN\<close>.  The calculator's
  result does stay below \<^verbatim>\<open>delayMaximum\<close> (\<open>backoff_le_cap\<close>).
\<close>

theorem fetch_unparsable_hint_delay:
  "waits (snd (snd (fetch (stubEnv (\<lambda>w u. plain 503 [(''Retry-After'', ''soon'')]))
       listeningInstance ''https://example.com/'' 0))) = [NaN, NaN, NaN, NaN]
   \<and> map retryAfter (events (snd (snd (fetch (stubEnv (\<lambda>w u. plain 503 [(''Retry-After'', ''soon'')]))
       listeningInstance ''https://example.com/'' 0)))) = [NaN, NaN, NaN, NaN]"
  by (simp add: run_defs)


text \<open>
  Claim C9 says that every instance the constructor accepts has
  \<^verbatim>\<open>delayMinimum < delayMaximum\<close>.  The constructor compares the two only when
  \<^verbatim>\<open>delayMinimum\<close> is given (\<open>set_delayMinimum_below\<close>): options that give only a
  \<^verbatim>\<open>delayMaximum\<close> of 500 are accepted, and the instance keeps the default \<^verbatim>\<open>delayMinimum\<close>
  of 1000 above it.
\<close>

theorem newExFetch_delayMaximum_500:
  "fst (newExFetch (retryOnly [(''delayMaximum'', Number (Fin 500))]) 0)
     = Inr (defaultInstance\<lparr>priv_retry := retryDefault\<lparr>delayMaximum := 500\<rparr>\<rparr>)
   \<and> delayMinimum (retryDefault\<lparr>delayMaximum := 500\<rparr>) = 1000
   \<and> delayMaximum (retryDefault\<lparr>delayMaximum := 500\<rparr>) = 500"
  by (simp add: new_defs defaultInstance_def)

end
